theory Spec2Isabelle
  imports Complex_Main
begin

section \<open>Python strings and integers used by bot.py\<close>

text \<open>
  A Python text is the list of the bytes of its UTF-8 encoding. The functions below
  model the Python built-ins that bot.py applies to texts read from the database or
  typed into a modal: \<^verbatim>\<open>str(int)\<close>, \<^verbatim>\<open>int(str)\<close>, \<^verbatim>\<open>str.strip()\<close>,
  \<^verbatim>\<open>",".join\<close>, \<^verbatim>\<open>str.split(',')\<close>, \<^verbatim>\<open>str.startswith\<close> and
  \<^verbatim>\<open>str.split("_", 1)[1]\<close>. The separators and prefixes of bot.py are ASCII, and
  an ASCII byte never lies inside the encoding of another code point, so joining,
  splitting and prefix tests on the bytes are those on the text. White space and
  decimal digits are those of Unicode, as in Python.
\<close>

datatype py_error = ValueError | IndexError | HTTPException

definition digit_char :: "nat \<Rightarrow> char" where
  "digit_char d = char_of (48 + d)"

definition is_digit :: "char \<Rightarrow> bool" where
  "is_digit c = (48 \<le> (of_char c :: nat) \<and> (of_char c :: nat) \<le> 57)"

definition digit_val :: "char \<Rightarrow> nat" where
  "digit_val c = of_char c - 48"

function dec_str :: "nat \<Rightarrow> string" where
  "dec_str n = (if n < 10 then [digit_char n] else dec_str (n div 10) @ [digit_char (n mod 10)])"
  by pat_completeness auto
termination
  by (relation "measure (\<lambda>n. n)") auto

declare dec_str.simps [simp del]

text \<open>
  \<^verbatim>\<open>str(x)\<close> for a Python int. Python refuses to convert ints of more than 4300
  digits; Discord ids are 64-bit, and the limit is not modelled.
\<close>

definition py_str :: "int \<Rightarrow> string" where
  "py_str x = (if x < 0 then CHR ''-'' # dec_str (nat (- x)) else dec_str (nat x))"

text \<open>
  The code point at the head of a text and the bytes after it, by the UTF-8 rules for
  one to four bytes; \<open>None\<close> where the bytes are no UTF-8.
\<close>

definition cont :: "char \<Rightarrow> bool" where
  "cont b = (0x80 \<le> (of_char b :: nat) \<and> (of_char b :: nat) < 0xC0)"

definition utf8_head :: "string \<Rightarrow> (nat \<times> string) option" where
  "utf8_head s =
     (case s of
        [] \<Rightarrow> None
      | b0 # r \<Rightarrow>
          (let x = (of_char b0 :: nat) in
           if x < 0x80 then Some (x, r)
           else if 0xC2 \<le> x \<and> x < 0xE0 then
             (case r of
                b1 # r1 \<Rightarrow>
                  if cont b1 then Some ((x - 0xC0) * 64 + (of_char b1 - 0x80), r1) else None
              | _ \<Rightarrow> None)
           else if 0xE0 \<le> x \<and> x < 0xF0 then
             (case r of
                b1 # b2 # r2 \<Rightarrow>
                  if cont b1 \<and> cont b2
                  then Some ((x - 0xE0) * 4096 + (of_char b1 - 0x80) * 64 + (of_char b2 - 0x80), r2)
                  else None
              | _ \<Rightarrow> None)
           else if 0xF0 \<le> x \<and> x < 0xF5 then
             (case r of
                b1 # b2 # b3 # r3 \<Rightarrow>
                  if cont b1 \<and> cont b2 \<and> cont b3
                  then Some ((x - 0xF0) * 262144 + (of_char b1 - 0x80) * 4096
                             + (of_char b2 - 0x80) * 64 + (of_char b3 - 0x80), r3)
                  else None
              | _ \<Rightarrow> None)
           else None))"

text \<open>
  \<^verbatim>\<open>str.isspace\<close> of one code point: the white space that \<^verbatim>\<open>str.strip()\<close> removes
  and that \<^verbatim>\<open>int()\<close> accepts around a number when it is not ASCII.
\<close>

definition isspace :: "nat \<Rightarrow> bool" where
  "isspace n =
     (n \<in> {9, 10, 11, 12, 13, 28, 29, 30, 31, 32, 0x85, 0xA0, 0x1680, 0x2028, 0x2029,
            0x202F, 0x205F, 0x3000}
      \<or> (0x2000 \<le> n \<and> n \<le> 0x200A))"

function lstrip :: "string \<Rightarrow> string" where
  "lstrip s =
     (case utf8_head s of
        None \<Rightarrow> s
      | Some (cp, r) \<Rightarrow> if isspace cp then lstrip r else s)"
  by pat_completeness auto
termination
  by (relation "measure length")
     (auto simp: utf8_head_def Let_def split: list.splits if_splits)

declare lstrip.simps [simp del]

text \<open>The code point that the last \<open>k\<close> bytes of a text encode, if they encode one.\<close>

definition ends_at :: "string \<Rightarrow> nat \<Rightarrow> nat option" where
  "ends_at s k =
     (if 0 < k \<and> k \<le> length s then
        (case utf8_head (drop (length s - k) s) of
           Some (cp, r) \<Rightarrow> if r = [] then Some cp else None
         | None \<Rightarrow> None)
      else None)"

text \<open>The code point at the end of a text and the bytes before it.\<close>

definition utf8_last :: "string \<Rightarrow> (nat \<times> string) option" where
  "utf8_last s =
     (case ends_at s 1 of
        Some cp \<Rightarrow> Some (cp, take (length s - 1) s)
      | None \<Rightarrow>
     (case ends_at s 2 of
        Some cp \<Rightarrow> Some (cp, take (length s - 2) s)
      | None \<Rightarrow>
     (case ends_at s 3 of
        Some cp \<Rightarrow> Some (cp, take (length s - 3) s)
      | None \<Rightarrow>
     (case ends_at s 4 of
        Some cp \<Rightarrow> Some (cp, take (length s - 4) s)
      | None \<Rightarrow> None))))"

function rstrip :: "string \<Rightarrow> string" where
  "rstrip s =
     (case utf8_last s of
        None \<Rightarrow> s
      | Some (cp, r) \<Rightarrow> if isspace cp then rstrip r else s)"
  by pat_completeness auto
termination
  by (relation "measure length")
     (auto simp: utf8_last_def ends_at_def split: option.splits if_splits)

declare rstrip.simps [simp del]

text \<open>\<^verbatim>\<open>s.strip()\<close>.\<close>

definition py_strip :: "string \<Rightarrow> string" where
  "py_strip s = rstrip (lstrip s)"

text \<open>
  The decimal digits beyond ASCII: each entry is the code point of a digit zero, followed
  by the digits one to nine (Unicode 14.0, the database of Python 3.11; later versions
  add scripts).
\<close>

definition decimal_zeros :: "nat list" where
  "decimal_zeros =
     [0x660, 0x6F0, 0x7C0, 0x966, 0x9E6, 0xA66, 0xAE6, 0xB66, 0xBE6, 0xC66, 0xCE6, 0xD66,
      0xDE6, 0xE50, 0xED0, 0xF20, 0x1040, 0x1090, 0x17E0, 0x1810, 0x1946, 0x19D0, 0x1A80,
      0x1A90, 0x1B50, 0x1BB0, 0x1C40, 0x1C50, 0xA620, 0xA8D0, 0xA900, 0xA9D0, 0xA9F0,
      0xAA50, 0xABF0, 0xFF10, 0x104A0, 0x10D30, 0x11066, 0x110F0, 0x11136, 0x111D0,
      0x112F0, 0x11450, 0x114D0, 0x11650, 0x116C0, 0x11730, 0x118E0, 0x11950, 0x11C50,
      0x11D50, 0x11DA0, 0x16A60, 0x16AC0, 0x16B50, 0x1D7CE, 0x1D7D8, 0x1D7E2, 0x1D7EC,
      0x1D7F6, 0x1E140, 0x1E2F0, 0x1E950, 0x1FBF0]"

definition decimal :: "nat \<Rightarrow> nat option" where
  "decimal cp = map_option (\<lambda>z. cp - z) (List.find (\<lambda>z. z \<le> cp \<and> cp < z + 10) decimal_zeros)"

text \<open>
  What \<^verbatim>\<open>int()\<close> does first with a text: code points below 127 stay, other white
  space becomes a blank, other decimal digits become ASCII digits, and anything else
  makes the text no number.
\<close>

function to_ascii :: "string \<Rightarrow> string option" where
  "to_ascii s =
     (if s = [] then Some []
      else
        (case utf8_head s of
           None \<Rightarrow> None
         | Some (cp, r) \<Rightarrow>
             if cp < 127 then map_option ((#) (char_of cp)) (to_ascii r)
             else if isspace cp then map_option ((#) CHR '' '') (to_ascii r)
             else
               (case decimal cp of
                  None \<Rightarrow> None
                | Some d \<Rightarrow> map_option ((#) (digit_char d)) (to_ascii r))))"
  by pat_completeness auto
termination
  by (relation "measure length")
     (auto simp: utf8_head_def Let_def split: list.splits if_splits)

declare to_ascii.simps [simp del]

text \<open>The white space that \<^verbatim>\<open>int()\<close> skips around the ASCII form of a number.\<close>

definition Py_ISSPACE :: "char \<Rightarrow> bool" where
  "Py_ISSPACE c = ((of_char c :: nat) \<in> {9, 10, 11, 12, 13, 32})"

text \<open>
  The digits of an integer literal: decimal digits, where a single underscore may stand
  between two digits.
\<close>

fun digits_acc :: "nat \<Rightarrow> string \<Rightarrow> nat option" where
  "digits_acc a [] = Some a"
| "digits_acc a (c # cs) =
     (if is_digit c then digits_acc (10 * a + digit_val c) cs
      else if c = CHR ''_'' \<and> cs \<noteq> [] \<and> is_digit (hd cs) then digits_acc a cs
      else None)"

definition py_nat :: "string \<Rightarrow> nat option" where
  "py_nat s = (case s of [] \<Rightarrow> None | c # cs \<Rightarrow> if is_digit c then digits_acc 0 s else None)"

text \<open>
  \<^verbatim>\<open>int(s)\<close> for a string, \<open>None\<close> being the ValueError: white space, an optional
  sign, the digits, white space.
\<close>

definition py_int :: "string \<Rightarrow> int option" where
  "py_int s =
     (case to_ascii s of
        None \<Rightarrow> None
      | Some a \<Rightarrow>
          (case dropWhile Py_ISSPACE a of
             [] \<Rightarrow> None
           | c # cs \<Rightarrow>
               if c = CHR ''-''
                 then map_option (\<lambda>n. - int n) (py_nat (rev (dropWhile Py_ISSPACE (rev cs))))
               else if c = CHR ''+''
                 then map_option int (py_nat (rev (dropWhile Py_ISSPACE (rev cs))))
               else map_option int (py_nat (rev (dropWhile Py_ISSPACE (rev (c # cs)))))))"

fun join_comma :: "string list \<Rightarrow> string" where
  "join_comma [] = []"
| "join_comma [x] = x"
| "join_comma (x # y # ys) = x @ CHR '','' # join_comma (y # ys)"

fun split_comma :: "string \<Rightarrow> string list" where
  "split_comma [] = [[]]"
| "split_comma (c # cs) =
     (if c = CHR '','' then [] # split_comma cs
      else (c # hd (split_comma cs)) # tl (split_comma cs))"

definition startswith :: "string \<Rightarrow> string \<Rightarrow> bool" where
  "startswith s p = (take (length p) s = p)"

text \<open>\<^verbatim>\<open>cid.split("_", 1)[1]\<close>: the text after the first underscore.\<close>

definition after_underscore :: "string \<Rightarrow> py_error + string" where
  "after_underscore s =
     (case dropWhile (\<lambda>c. c \<noteq> CHR ''_'') s of [] \<Rightarrow> Inl IndexError | _ # r \<Rightarrow> Inr r)"

section \<open>Database (SQLite table applications)\<close>

text \<open>
  One row of the table. The column \<open>bot_message_ids\<close> is TEXT in the table and a list
  of ints in the dict that \<open>fetch_app\<close> returns, so the row type takes the type of
  that field as a parameter. NULL is \<open>None\<close>.
\<close>

record 'ids app_row =
  application_id :: string
  user_id :: "string option"
  username :: "string option"
  started_at :: "string option"
  finished_at :: "string option"
  transcript :: "string option"
  bot_message_ids :: 'ids
  score :: "int option"
  score_scale :: "int option"
  decision :: "string option"
  decision_reason :: "string option"
  picker_id :: "string option"
  reviewer_id :: "string option"

type_synonym db_row = "string option app_row"
type_synonym app = "int list app_row"
type_synonym store = "string \<rightharpoonup> db_row"

text \<open>The keyword parameters of \<open>save_app\<close>; each defaults to None.\<close>

record kwargs =
  k_bot_message_ids :: "int list option"
  k_started_at :: "string option"
  k_finished_at :: "string option"
  k_score :: "int option"
  k_score_scale :: "int option"
  k_decision :: "string option"
  k_decision_reason :: "string option"
  k_picker_id :: "string option"
  k_reviewer_id :: "string option"

definition no_kw :: kwargs where
  "no_kw = \<lparr>k_bot_message_ids = None, k_started_at = None, k_finished_at = None,
     k_score = None, k_score_scale = None, k_decision = None, k_decision_reason = None,
     k_picker_id = None, k_reviewer_id = None\<rparr>"

text \<open>SQL \<^verbatim>\<open>COALESCE(?, column)\<close>.\<close>

definition coalesce :: "'a option \<Rightarrow> 'a option \<Rightarrow> 'a option" where
  "coalesce new old = (case new of None \<Rightarrow> old | Some v \<Rightarrow> Some v)"

definition bot_ids_text :: "int list option \<Rightarrow> string option" where
  "bot_ids_text ids = map_option (\<lambda>l. join_comma (map py_str l)) ids"

text \<open>The UPDATE statement of \<open>save_app\<close>, on the row it finds.\<close>

definition sql_update :: "db_row \<Rightarrow> string option \<Rightarrow> kwargs \<Rightarrow> db_row" where
  "sql_update row tr kw = row\<lparr>
     transcript := tr,
     bot_message_ids := coalesce (bot_ids_text (k_bot_message_ids kw)) (bot_message_ids row),
     finished_at := coalesce (k_finished_at kw) (finished_at row),
     score := coalesce (k_score kw) (score row),
     score_scale := coalesce (k_score_scale kw) (score_scale row),
     decision := coalesce (k_decision kw) (decision row),
     decision_reason := coalesce (k_decision_reason kw) (decision_reason row),
     picker_id := coalesce (k_picker_id kw) (picker_id row),
     reviewer_id := coalesce (k_reviewer_id kw) (reviewer_id row)\<rparr>"

text \<open>The INSERT statement of \<open>save_app\<close>.\<close>

definition sql_insert ::
  "string \<Rightarrow> string option \<Rightarrow> string option \<Rightarrow> string option \<Rightarrow> kwargs \<Rightarrow> db_row" where
  "sql_insert app_id uid uname tr kw = \<lparr>
     application_id = app_id, user_id = uid, username = uname,
     started_at = k_started_at kw, finished_at = k_finished_at kw, transcript = tr,
     bot_message_ids = bot_ids_text (k_bot_message_ids kw),
     score = k_score kw, score_scale = k_score_scale kw, decision = k_decision kw,
     decision_reason = k_decision_reason kw, picker_id = k_picker_id kw,
     reviewer_id = k_reviewer_id kw\<rparr>"

definition save_app ::
  "store \<Rightarrow> string \<Rightarrow> string option \<Rightarrow> string option \<Rightarrow> string option \<Rightarrow> kwargs \<Rightarrow> store" where
  "save_app db app_id uid uname tr kw =
     (case db app_id of
        Some row \<Rightarrow> db(app_id \<mapsto> sql_update row tr kw)
      | None \<Rightarrow> db(app_id \<mapsto> sql_insert app_id uid uname tr kw))"

text \<open>
  The list that \<open>fetch_app\<close> builds from the stored text: empty for NULL and for the
  empty text, else the ints of the non-blank comma-separated parts; \<open>None\<close> when one
  of them is no int (\<^verbatim>\<open>int(x)\<close> raises ValueError).
\<close>

definition parse_ids :: "string option \<Rightarrow> int list option" where
  "parse_ids t =
     (case t of
        None \<Rightarrow> Some []
      | Some s \<Rightarrow>
          if s = [] then Some []
          else those (map py_int (filter (\<lambda>x. py_strip x \<noteq> []) (split_comma s))))"

definition with_ids :: "db_row \<Rightarrow> int list \<Rightarrow> app" where
  "with_ids row ids = \<lparr>
     application_id = application_id row, user_id = user_id row, username = username row,
     started_at = started_at row, finished_at = finished_at row,
     transcript = transcript row, bot_message_ids = ids,
     score = score row, score_scale = score_scale row, decision = decision row,
     decision_reason = decision_reason row, picker_id = picker_id row,
     reviewer_id = reviewer_id row\<rparr>"

text \<open>\<open>Inr None\<close> is the source's \<^verbatim>\<open>return None\<close>; \<open>Inl\<close> is an exception.\<close>

definition fetch_app :: "store \<Rightarrow> string \<Rightarrow> py_error + app option" where
  "fetch_app db app_id =
     (case db app_id of
        None \<Rightarrow> Inr None
      | Some row \<Rightarrow>
          (case parse_ids (bot_message_ids row) of
             None \<Rightarrow> Inl ValueError
           | Some ids \<Rightarrow> Inr (Some (with_ids row ids))))"

section \<open>Configuration, users and replies\<close>

text \<open>
  The values bot.py reads from config.ini. A \<open>REVIEWER_ROLE_ID\<close> of 0 is Python's
  falsy value: no reviewer role is configured.
\<close>

record config =
  REVIEWER_ROLE_ID :: int
  COOLDOWN :: int
  QUESTIONS :: "string list"

text \<open>
  What the handlers read of a Discord user: \<open>ident\<close> is \<^verbatim>\<open>user.id\<close>,
  \<open>is_member\<close> is \<^verbatim>\<open>isinstance(user, discord.Member)\<close>, \<open>roles\<close> the ids of
  \<^verbatim>\<open>user.roles\<close>, \<open>tag\<close> is \<^verbatim>\<open>str(user)\<close> and \<open>is_bot\<close> is \<^verbatim>\<open>user.bot\<close>.
\<close>

record user =
  ident :: int
  is_member :: bool
  roles :: "int list"
  tag :: string
  is_bot :: bool

text \<open>
  The replies of the handlers, named after the error taxonomy of the specification:
  \<^item> \<open>NotFound\<close>: "Application not found."
  \<^item> \<open>Forbidden\<close>: "This application is claimed by another staff member." and
    "Claimed by another staff member."
  \<^item> \<open>Unauthorized\<close>: "You are not authorized to score applications.",
    "... to pick applications." and "Not authorized to view."
  \<^item> \<open>InvalidFormat\<close>: "Scale and score must be integers."
  \<^item> \<open>InvalidScale\<close>: "Scale must be one of: 5, 10, 50, 100."
  \<^item> \<open>ScoreRequired\<close>: "Please score the application before making a decision."
  \<^item> \<open>AlreadyClaimed\<close>: "Already claimed."
  \<^item> \<open>CooldownActive\<close>: "Please wait before starting another application. ..."
  \<^item> \<open>DeliveryFailure\<close>: "Couldn't DM you. ..."
  \<^item> \<open>SavedScore\<close>, \<open>DecisionRecorded\<close>, \<open>Claimed\<close>, \<open>CheckDMs\<close>,
    \<open>TranscriptSent\<close>: the replies of the successful paths.
  The flag of \<open>Reply\<close> is the \<^verbatim>\<open>ephemeral\<close> argument of \<^verbatim>\<open>send_message\<close>: the reply
  is shown to the acting user only.
\<close>

datatype msg =
    NotFound | Forbidden | Unauthorized | InvalidFormat | InvalidScale | ScoreRequired
  | AlreadyClaimed | CooldownActive | DeliveryFailure
  | SavedScore int int | DecisionRecorded string | Claimed | CheckDMs | TranscriptSent

datatype modal = ScoreModal string | DecisionModal string string

datatype response = Reply msg bool | SendModal modal | Raise py_error

text \<open>Python truthiness of a text column: neither None nor the empty string.\<close>

definition truthy :: "string option \<Rightarrow> bool" where
  "truthy t = (case t of None \<Rightarrow> False | Some s \<Rightarrow> s \<noteq> [])"

text \<open>\<^verbatim>\<open>str(v)\<close> of a text column.\<close>

definition py_str_opt :: "string option \<Rightarrow> string" where
  "py_str_opt t = (case t of None \<Rightarrow> ''None'' | Some s \<Rightarrow> s)"

text \<open>
  The picker enforcement that \<open>ScoreModal.on_submit\<close>, \<open>DecisionModal.on_submit\<close>
  and \<open>on_interaction\<close> each write out:
  \<^verbatim>\<open>app['picker_id'] and str(interaction.user.id) != str(app['picker_id'])\<close>.
\<close>

definition claimed_by_other :: "app \<Rightarrow> user \<Rightarrow> bool" where
  "claimed_by_other a u = (truthy (picker_id a) \<and> py_str (ident u) \<noteq> py_str_opt (picker_id a))"

text \<open>
  The role check of \<open>ScoreModal.on_submit\<close>, \<open>pick\<close> and the view branch:
  \<^verbatim>\<open>REVIEWER_ROLE_ID and isinstance(user, discord.Member)\<close> and
  \<^verbatim>\<open>not any(r.id == REVIEWER_ROLE_ID for r in user.roles)\<close>.
\<close>

definition lacks_reviewer_role :: "config \<Rightarrow> user \<Rightarrow> bool" where
  "lacks_reviewer_role cfg u =
     (REVIEWER_ROLE_ID cfg \<noteq> 0 \<and> is_member u \<and>
      \<not> list_ex (\<lambda>r. r = REVIEWER_ROLE_ID cfg) (roles u))"

section \<open>Review workflow: score, decide, claim\<close>

definition ScoreModal_on_submit ::
  "config \<Rightarrow> store \<Rightarrow> string \<Rightarrow> user \<Rightarrow> string \<Rightarrow> string \<Rightarrow> store \<times> response list" where
  "ScoreModal_on_submit cfg db app_id u scale_value score_value =
     (case fetch_app db app_id of
        Inl e \<Rightarrow> (db, [Raise e])
      | Inr None \<Rightarrow> (db, [Reply NotFound True])
      | Inr (Some a) \<Rightarrow>
          if claimed_by_other a u then (db, [Reply Forbidden True])
          else if \<not> truthy (picker_id a) \<and> lacks_reviewer_role cfg u
            then (db, [Reply Unauthorized True])
          else
            (case py_int (py_strip scale_value) of
               None \<Rightarrow> (db, [Reply InvalidFormat True])
             | Some scale \<Rightarrow>
                 (case py_int (py_strip score_value) of
                    None \<Rightarrow> (db, [Reply InvalidFormat True])
                  | Some sc \<Rightarrow>
                      if scale \<notin> {5, 10, 50, 100} then (db, [Reply InvalidScale True])
                      else
                        (save_app db app_id (user_id a) (username a) (transcript a)
                           (no_kw\<lparr>k_bot_message_ids := Some (bot_message_ids a),
                              k_score := Some sc, k_score_scale := Some scale,
                              k_picker_id := picker_id a,
                              k_reviewer_id := Some (py_str (ident u))\<rparr>),
                         [Reply (SavedScore sc scale) True]))))"

text \<open>
  In-memory DM flows: \<open>ongoing\<close> maps \<^verbatim>\<open>str(user.id)\<close> to the state of the
  conversation; \<open>st_last\<close> is the time of the start (key \<^verbatim>\<open>'last'\<close>).
\<close>

record conv_state =
  st_app_id :: string
  st_started :: string
  st_q_index :: nat
  st_transcript :: "string list"
  st_bot_message_ids :: "int list"
  st_last :: real

type_synonym ongoing = "string \<rightharpoonup> conv_state"

text \<open>
  \<open>result_sent\<close> is the id of the final result message when
  \<^verbatim>\<open>bot.fetch_user\<close> and \<^verbatim>\<open>user.send\<close> succeed, None when one of them raises (the
  source swallows the exception). Deleting the messages in the applicant's DM and
  editing the staff post do not touch the table or \<open>ongoing\<close>.
\<close>

definition DecisionModal_on_submit ::
  "store \<times> ongoing \<Rightarrow> string \<Rightarrow> string \<Rightarrow> user \<Rightarrow> string \<Rightarrow> int option \<Rightarrow>
   (store \<times> ongoing) \<times> response list" where
  "DecisionModal_on_submit st app_id dec u reason_value result_sent =
     (case fetch_app (fst st) app_id of
        Inl e \<Rightarrow> (st, [Raise e])
      | Inr None \<Rightarrow> (st, [Reply NotFound True])
      | Inr (Some a) \<Rightarrow>
          if claimed_by_other a u then (st, [Reply Forbidden True])
          else if score a = None
            then (st, [Reply ScoreRequired True])
          else
            (let db1 = save_app (fst st) app_id (user_id a) (username a) (transcript a)
                   (no_kw\<lparr>k_bot_message_ids := Some (bot_message_ids a),
                      k_decision := Some dec,
                      k_decision_reason := Some (py_strip reason_value),
                      k_reviewer_id := Some (py_str (ident u)),
                      k_picker_id := picker_id a\<rparr>);
                 sent = (case user_id a of
                           None \<Rightarrow> None
                         | Some t \<Rightarrow> (case py_int t of None \<Rightarrow> None | Some _ \<Rightarrow> result_sent));
                 db2 = (case sent of
                          None \<Rightarrow> db1
                        | Some mid \<Rightarrow>
                            save_app db1 app_id (user_id a) (username a) (transcript a)
                              \<lparr>k_bot_message_ids = Some [mid],
                               k_started_at = started_at a, k_finished_at = finished_at a,
                               k_score = score a, k_score_scale = score_scale a,
                               k_decision = Some dec,
                               k_decision_reason = Some (py_strip reason_value),
                               k_picker_id = picker_id a,
                               k_reviewer_id = Some (py_str (ident u))\<rparr>)
             in ((db2, (snd st)(py_str_opt (user_id a) := None)),
                 [Reply (DecisionRecorded dec) True])))"

text \<open>\<open>StaffClaimView.pick\<close>, the Pick button.\<close>

definition pick :: "config \<Rightarrow> store \<Rightarrow> string \<Rightarrow> user \<Rightarrow> store \<times> response list" where
  "pick cfg db app_id u =
     (case fetch_app db app_id of
        Inl e \<Rightarrow> (db, [Raise e])
      | Inr None \<Rightarrow> (db, [Reply NotFound True])
      | Inr (Some a) \<Rightarrow>
          if truthy (picker_id a) then (db, [Reply AlreadyClaimed True])
          else if lacks_reviewer_role cfg u then (db, [Reply Unauthorized True])
          else
            (save_app db app_id (user_id a) (username a) (transcript a)
               (no_kw\<lparr>k_bot_message_ids := Some (bot_message_ids a),
                  k_picker_id := Some (py_str (ident u))\<rparr>),
             [Reply Claimed True]))"

text \<open>
  \<open>on_interaction\<close>, the handler of the buttons with a custom id; \<open>dm_ok\<close> tells
  whether the transcript could be sent to the user's DM.
\<close>

definition on_interaction ::
  "config \<Rightarrow> store \<Rightarrow> user \<Rightarrow> string option \<Rightarrow> bool \<Rightarrow> response list" where
  "on_interaction cfg db u custom_id dm_ok =
     (case custom_id of
        None \<Rightarrow> []
      | Some cid \<Rightarrow>
          if startswith cid ''score_'' then
            (case after_underscore cid of
               Inl e \<Rightarrow> [Raise e]
             | Inr app_id \<Rightarrow>
                 (case fetch_app db app_id of
                    Inl e \<Rightarrow> [Raise e]
                  | Inr None \<Rightarrow> [Reply NotFound True]
                  | Inr (Some a) \<Rightarrow>
                      if claimed_by_other a u then [Reply Forbidden True]
                      else [SendModal (ScoreModal app_id)]))
          else if startswith cid ''approve_'' \<or> startswith cid ''deny_'' then
            (case after_underscore cid of
               Inl e \<Rightarrow> [Raise e]
             | Inr app_id \<Rightarrow>
                 (case fetch_app db app_id of
                    Inl e \<Rightarrow> [Raise e]
                  | Inr None \<Rightarrow> [Reply NotFound True]
                  | Inr (Some a) \<Rightarrow>
                      if claimed_by_other a u then [Reply Forbidden True]
                      else [SendModal (DecisionModal app_id
                              (if startswith cid ''approve_'' then ''Approved'' else ''Denied''))]))
          else if startswith cid ''view_'' then
            (case after_underscore cid of
               Inl e \<Rightarrow> [Raise e]
             | Inr app_id \<Rightarrow>
                 (case fetch_app db app_id of
                    Inl e \<Rightarrow> [Raise e]
                  | Inr None \<Rightarrow> [Reply NotFound True]
                  | Inr (Some a) \<Rightarrow>
                      if Some (py_str (ident u)) \<noteq> user_id a \<and> lacks_reviewer_role cfg u
                        then [Reply Unauthorized True]
                      else if dm_ok then [Reply TranscriptSent True]
                      else [Reply DeliveryFailure True]))
          else [])"

section \<open>Conversation flow: /apply and the DM listener\<close>

text \<open>
  \<open>new_app_id\<close> takes what it reads from its environment: the UTC clock formatted as
  \<^verbatim>\<open>%Y%m%d%H%M%S\<close> and the hex text of a random UUID, of which it keeps six digits.
\<close>

definition new_app_id :: "string \<Rightarrow> string \<Rightarrow> string" where
  "new_app_id stamp uuid_hex = ''app_'' @ stamp @ ''_'' @ take 6 uuid_hex"

text \<open>
  What one run of \<^verbatim>\<open>/apply\<close> gets from outside: whether \<^verbatim>\<open>create_dm\<close> succeeds, the
  clock and the UUID for the id, the ISO text of the clock, and the ids of the welcome
  message and of the first question (None when \<^verbatim>\<open>dm.send\<close> raises).
\<close>

record apply_env =
  create_dm_ok :: bool
  clock_stamp :: string
  uuid_hex :: string
  clock_iso :: string
  welcome_sent :: "int option"
  question_sent :: "int option"

text \<open>
  The slash command \<^verbatim>\<open>/apply\<close> (the function \<^verbatim>\<open>apply\<close> of the source). It reads and
  writes \<open>ongoing\<close> only, never the table. Times are exact reals.
\<close>

definition apply_command ::
  "config \<Rightarrow> ongoing \<Rightarrow> user \<Rightarrow> real \<Rightarrow> apply_env \<Rightarrow> ongoing \<times> response list" where
  "apply_command cfg og u now env =
     (let key = py_str (ident u);
          last = (case og key of None \<Rightarrow> 0 | Some s \<Rightarrow> st_last s)
      in if now - last < of_int (COOLDOWN cfg) then (og, [Reply CooldownActive True])
         else if \<not> create_dm_ok env
           then (og, [Reply CheckDMs True, Reply DeliveryFailure True])
         else
           (let s0 = \<lparr>st_app_id = new_app_id (clock_stamp env) (uuid_hex env),
                      st_started = clock_iso env, st_q_index = 0, st_transcript = [],
                      st_bot_message_ids = [], st_last = now\<rparr>
            in case welcome_sent env of
                 None \<Rightarrow> (og(key \<mapsto> s0), [Reply CheckDMs True, Reply DeliveryFailure True])
               | Some m \<Rightarrow>
                   (let s1 = s0\<lparr>st_bot_message_ids := [m]\<rparr>
                    in case QUESTIONS cfg of
                         [] \<Rightarrow> (og(key \<mapsto> s1),
                                 [Reply CheckDMs True, Reply DeliveryFailure True])
                       | q # _ \<Rightarrow>
                           (case question_sent env of
                              None \<Rightarrow> (og(key \<mapsto> s1),
                                        [Reply CheckDMs True, Reply DeliveryFailure True])
                            | Some qm \<Rightarrow>
                                (og(key \<mapsto> s1\<lparr>st_bot_message_ids := [m, qm]\<rparr>),
                                 [Reply CheckDMs True])))))"

definition newline :: char where
  "newline = CHR 0x0A"

fun join_newline :: "string list \<Rightarrow> string" where
  "join_newline [] = []"
| "join_newline [x] = x"
| "join_newline (x # y # ys) = x @ newline # join_newline (y # ys)"

text \<open>The transcript entry \<^verbatim>\<open>f"Q: {q_text}\nA: {ans}\n"\<close>.\<close>

definition qa_entry :: "string \<Rightarrow> string \<Rightarrow> string" where
  "qa_entry q_text ans = ''Q: '' @ q_text @ [newline] @ ''A: '' @ ans @ [newline]"

text \<open>
  What one run of \<open>on_message\<close> gets from outside: the id of the next question's
  message and of the summary message (None when \<^verbatim>\<open>channel.send\<close> raises), the ISO text
  of the clock, and whether the clean-up of the DM raises.
\<close>

record message_env =
  next_sent :: "int option"
  finished_iso :: string
  summary_sent :: "int option"
  cleanup_raises :: bool

text \<open>
  \<open>on_message\<close>. The second component is the exception that leaves the handler, if
  any; what was written before it stays written. Posting to the staff channel does not
  touch the table or \<open>ongoing\<close>.
\<close>

definition on_message ::
  "config \<Rightarrow> store \<times> ongoing \<Rightarrow> user \<Rightarrow> bool \<Rightarrow> string \<Rightarrow> message_env \<Rightarrow>
   (store \<times> ongoing) \<times> py_error option" where
  "on_message cfg st author in_dm content env =
     (if is_bot author then (st, None)
      else if \<not> in_dm then (st, None)
      else
        (let uid = py_str (ident author) in
         case snd st uid of
           None \<Rightarrow> (st, None)
         | Some state \<Rightarrow>
             if length (QUESTIONS cfg) \<le> st_q_index state then (st, Some IndexError)
             else
               (let app_id = st_app_id state;
                    q_text = QUESTIONS cfg ! st_q_index state;
                    ans = py_strip content;
                    state1 = state\<lparr>st_transcript := st_transcript state @ [qa_entry q_text ans],
                                   st_q_index := st_q_index state + 1\<rparr>;
                    og1 = (snd st)(uid \<mapsto> state1);
                    tr = Some (join_newline (st_transcript state1));
                    db1 = save_app (fst st) app_id (Some uid) (Some (tag author)) tr
                            (no_kw\<lparr>k_bot_message_ids := Some (st_bot_message_ids state1),
                               k_started_at := Some (st_started state1)\<rparr>)
                in if st_q_index state1 < length (QUESTIONS cfg) then
                     (case next_sent env of
                        None \<Rightarrow> ((db1, og1), Some HTTPException)
                      | Some qid \<Rightarrow>
                          ((db1, og1(uid \<mapsto> state1\<lparr>st_bot_message_ids :=
                                                     st_bot_message_ids state1 @ [qid]\<rparr>)),
                           None))
                   else
                     (let finished = finished_iso env;
                          db2 = save_app db1 app_id (Some uid) (Some (tag author)) tr
                                  (no_kw\<lparr>k_bot_message_ids := Some (st_bot_message_ids state1),
                                     k_started_at := Some (st_started state1),
                                     k_finished_at := Some finished\<rparr>)
                      in case summary_sent env of
                           None \<Rightarrow> ((db2, og1), Some HTTPException)
                         | Some summary_id \<Rightarrow>
                             (let db3 =
                                (if cleanup_raises env then
                                   save_app db2 app_id (Some uid) (Some (tag author)) tr
                                     (no_kw\<lparr>k_bot_message_ids := Some [summary_id],
                                        k_started_at := Some (st_started state1),
                                        k_finished_at := Some finished\<rparr>)
                                 else
                                   save_app db2 app_id (Some uid) (Some (tag author)) tr
                                     (no_kw\<lparr>k_bot_message_ids := Some [summary_id],
                                        k_started_at := Some (st_started state1),
                                        k_finished_at := Some finished\<rparr>))
                              in ((db3, og1(uid := None)), None))))))"

section \<open>The bot as a transition system\<close>

datatype event =
    Apply user real apply_env
  | Message user bool string message_env
  | Pick string user
  | ScoreSubmit string user string string
  | DecisionSubmit string bool user string "int option"
  | Restart

text \<open>
  One event handled to its end. A decision modal carries the decision that
  \<open>on_interaction\<close> gave it: Approved or Denied. A restart of the process empties
  \<open>ongoing\<close> and keeps the table. The button clicks and the query command only read
  the table and are no events here. The events are not restricted to what the buttons
  on display allow, so every state of the running bot is among the reachable ones.
\<close>

fun handle :: "config \<Rightarrow> store \<times> ongoing \<Rightarrow> event \<Rightarrow> store \<times> ongoing" where
  "handle cfg st (Apply u now env) = (fst st, fst (apply_command cfg (snd st) u now env))"
| "handle cfg st (Message author in_dm content env) =
     fst (on_message cfg st author in_dm content env)"
| "handle cfg st (Pick app_id u) = (fst (pick cfg (fst st) app_id u), snd st)"
| "handle cfg st (ScoreSubmit app_id u scale_value score_value) =
     (fst (ScoreModal_on_submit cfg (fst st) app_id u scale_value score_value), snd st)"
| "handle cfg st (DecisionSubmit app_id approve u reason_value result_sent) =
     fst (DecisionModal_on_submit st app_id (if approve then ''Approved'' else ''Denied'')
            u reason_value result_sent)"
| "handle cfg st Restart = (fst st, Map.empty)"

fun run :: "config \<Rightarrow> store \<times> ongoing \<Rightarrow> event list \<Rightarrow> store \<times> ongoing" where
  "run cfg st [] = st"
| "run cfg st (e # es) = run cfg (handle cfg st e) es"

text \<open>The states the bot reaches from an empty table.\<close>

inductive reachable :: "config \<Rightarrow> store \<times> ongoing \<Rightarrow> bool" for cfg where
  init: "reachable cfg (Map.empty, Map.empty)"
| step: "reachable cfg st \<Longrightarrow> reachable cfg (handle cfg st e)"

section \<open>Invariants of the table\<close>

text \<open>
  What every row of a reachable table satisfies: a decision is stored only beside a
  score, the picker is never the empty text, and the stored message ids can be read
  back by \<open>fetch_app\<close>; and a row is stored under its \<open>application_id\<close>, the
  primary key.
\<close>

definition wf_row :: "db_row \<Rightarrow> bool" where
  "wf_row r =
     ((decision r \<noteq> None \<longrightarrow> score r \<noteq> None) \<and> picker_id r \<noteq> Some [] \<and>
      parse_ids (bot_message_ids r) \<noteq> None)"

definition wf_store :: "store \<Rightarrow> bool" where
  "wf_store db = (\<forall>i r. db i = Some r \<longrightarrow> wf_row r \<and> application_id r = i)"

text \<open>
  What a later version of a row keeps of an earlier one: a score and a decision stay
  non-null, and a picker stays who it is.
\<close>

definition row_keeps :: "db_row \<Rightarrow> db_row \<Rightarrow> bool" where
  "row_keeps r r' =
     ((decision r \<noteq> None \<longrightarrow> decision r' \<noteq> None) \<and>
      (score r \<noteq> None \<longrightarrow> score r' \<noteq> None) \<and>
      (truthy (picker_id r) \<longrightarrow> picker_id r' = picker_id r))"

definition store_keeps :: "store \<Rightarrow> store \<Rightarrow> bool" where
  "store_keeps db db' = (\<forall>i r. db i = Some r \<longrightarrow> (\<exists>r'. db' i = Some r' \<and> row_keeps r r'))"

section \<open>Example states\<close>

text \<open>
  Concrete inputs for the witnesses and counterexamples below: a configuration with one
  question and no reviewer role, one with the reviewer role 9, a guild member without
  roles, a submitted application that nobody has picked or scored, and a table holding
  one row.
\<close>

definition cfg0 :: config where
  "cfg0 = \<lparr>REVIEWER_ROLE_ID = 0, COOLDOWN = 300, QUESTIONS = [''Why do you apply?'']\<rparr>"

definition cfg9 :: config where
  "cfg9 = \<lparr>REVIEWER_ROLE_ID = 9, COOLDOWN = 300, QUESTIONS = [''Why do you apply?'']\<rparr>"

definition member :: "int \<Rightarrow> user" where
  "member n = \<lparr>ident = n, is_member = True, roles = [], tag = ''member'', is_bot = False\<rparr>"

definition row0 :: db_row where
  "row0 = \<lparr>application_id = ''app_1'', user_id = Some (py_str 7), username = Some ''ann'',
     started_at = Some ''2024-01-01T10:00:00'', finished_at = Some ''2024-01-01T10:05:00'',
     transcript = Some ''Q: Why do you apply? A: To help.'',
     bot_message_ids = bot_ids_text (Some [50]),
     score = None, score_scale = None, decision = None, decision_reason = None,
     picker_id = None, reviewer_id = None\<rparr>"

definition db_of :: "db_row \<Rightarrow> store" where
  "db_of r = Map.empty(''app_1'' \<mapsto> r)"

definition env0 :: apply_env where
  "env0 = \<lparr>create_dm_ok = True, clock_stamp = ''20240101100000'',
     uuid_hex = ''0123456789abcdef0123456789abcdef'', clock_iso = ''2024-01-01T10:00:00'',
     welcome_sent = Some 50, question_sent = Some 51\<rparr>"

definition menv0 :: message_env where
  "menv0 = \<lparr>next_sent = Some 52, finished_iso = ''2024-01-01T10:05:00'',
     summary_sent = Some 53, cleanup_raises = False\<rparr>"

text \<open>
  The flow of one application under \<open>cfg0\<close>: the applicant 7 starts, answers the only
  question, the staff member 1 scores 8 of 10 and approves; \<open>decided_row\<close> is the row
  the table then holds.
\<close>

definition flow0 :: "event list" where
  "flow0 =
     [Apply (member 7) 1704103200 env0, Message (member 7) True ''To help.'' menv0,
      ScoreSubmit ''app_20240101100000_012345'' (member 1) ''10'' '' 8'',
      DecisionSubmit ''app_20240101100000_012345'' True (member 1) ''Great fit'' (Some 54)]"

definition decided_row :: db_row where
  "decided_row =
     \<lparr>application_id = ''app_20240101100000_012345'', user_id = Some (py_str 7),
      username = Some ''member'', started_at = Some ''2024-01-01T10:00:00'',
      finished_at = Some ''2024-01-01T10:05:00'',
      transcript = Some (join_newline [qa_entry ''Why do you apply?'' ''To help.'']),
      bot_message_ids = bot_ids_text (Some [54]), score = Some 8, score_scale = Some 10,
      decision = Some ''Approved'', decision_reason = Some ''Great fit'',
      picker_id = None, reviewer_id = Some (py_str 1)\<rparr>"

definition decided_db :: store where
  "decided_db = Map.empty(''app_20240101100000_012345'' \<mapsto> decided_row)"

section \<open>Decimal texts\<close>

lemma digit_char_is_digit: "d < 10 \<Longrightarrow> is_digit (digit_char d)"
  by (simp add: is_digit_def digit_char_def)

lemma digit_val_digit_char: "d < 10 \<Longrightarrow> digit_val (digit_char d) = d"
  by (simp add: digit_val_def digit_char_def)

lemma dec_str_digits: "\<forall>c \<in> set (dec_str n). is_digit c"
proof (induction n rule: dec_str.induct)
  case (1 n)
  show ?case
  proof (cases "n < 10")
    case True
    then show ?thesis by (simp add: dec_str.simps [of n] digit_char_is_digit)
  next
    case False
    with 1 show ?thesis by (simp add: dec_str.simps [of n] digit_char_is_digit)
  qed
qed

lemma dec_str_nonempty: "dec_str n \<noteq> []"
  by (simp add: dec_str.simps [of n])

lemma digits_acc_snoc:
  "\<forall>c \<in> set xs. is_digit c \<Longrightarrow> is_digit d \<Longrightarrow>
   digits_acc a (xs @ [d]) = map_option (\<lambda>v. 10 * v + digit_val d) (digits_acc a xs)"
  by (induction xs arbitrary: a) auto

lemma digits_acc_dec_str: "digits_acc 0 (dec_str n) = Some n"
proof (induction n rule: dec_str.induct)
  case (1 n)
  show ?case
  proof (cases "n < 10")
    case True
    then show ?thesis
      by (simp add: dec_str.simps [of n] digit_char_is_digit digit_val_digit_char)
  next
    case False
    then have "digits_acc 0 (dec_str (n div 10)) = Some (n div 10)"
      using 1 by simp
    with False show ?thesis
      by (simp add: dec_str.simps [of n] digits_acc_snoc dec_str_digits
          digit_char_is_digit digit_val_digit_char)
  qed
qed

lemma py_nat_dec_str: "py_nat (dec_str n) = Some n"
proof (cases "dec_str n")
  case Nil
  then show ?thesis by (simp add: dec_str_nonempty)
next
  case (Cons c cs)
  moreover have "is_digit c"
    using dec_str_digits [of n] Cons by simp
  moreover have "digits_acc 0 (c # cs) = Some n"
    using digits_acc_dec_str [of n] Cons by simp
  ultimately show ?thesis
    by (simp add: py_nat_def)
qed

lemma is_digit_plain:
  "is_digit c \<Longrightarrow> (of_char c :: nat) < 127 \<and> \<not> isspace (of_char c) \<and> \<not> Py_ISSPACE c"
  by (auto simp: is_digit_def isspace_def Py_ISSPACE_def)

lemma is_digit_not_comma: "is_digit c \<Longrightarrow> c \<noteq> CHR '',''"
  by (auto simp: is_digit_def)

lemma is_digit_not_sign: "is_digit c \<Longrightarrow> c \<noteq> CHR ''-'' \<and> c \<noteq> CHR ''+''"
  by (auto simp: is_digit_def)

lemma dropWhile_none: "\<forall>c \<in> set xs. \<not> P c \<Longrightarrow> dropWhile P xs = xs"
  by (cases xs) auto

lemma rtrim_none: "\<forall>c \<in> set xs. \<not> P c \<Longrightarrow> rev (dropWhile P (rev xs)) = xs"
  by (simp add: dropWhile_none)

lemma utf8_head_ascii: "(of_char c :: nat) < 0x80 \<Longrightarrow> utf8_head (c # r) = Some (of_char c, r)"
  by (simp add: utf8_head_def)

lemma lstrip_Nil: "lstrip [] = []"
  by (simp add: lstrip.simps [of "[]"] utf8_head_def)

lemma lstrip_Cons_ascii:
  "(of_char c :: nat) < 0x80 \<Longrightarrow>
   lstrip (c # r) = (if isspace (of_char c) then lstrip r else c # r)"
  by (simp add: lstrip.simps [of "c # r"] utf8_head_ascii)

lemma utf8_last_ascii:
  assumes "s \<noteq> []" and "(of_char (last s) :: nat) < 0x80"
  shows "utf8_last s = Some (of_char (last s), butlast s)"
proof -
  obtain r c where s: "s = r @ [c]"
    using assms(1) by (cases s rule: rev_cases) auto
  then have "ends_at s 1 = Some (of_char c)"
    using assms(2) by (simp add: ends_at_def utf8_head_ascii)
  then show ?thesis
    using s by (simp add: utf8_last_def)
qed

lemma rstrip_Nil: "rstrip [] = []"
  by (simp add: rstrip.simps [of "[]"] utf8_last_def ends_at_def)

lemma rstrip_ends:
  "s \<noteq> [] \<Longrightarrow> (of_char (last s) :: nat) < 0x80 \<Longrightarrow> \<not> isspace (of_char (last s)) \<Longrightarrow>
   rstrip s = s"
  by (simp add: rstrip.simps [of s] utf8_last_ascii)

text \<open>A text that begins and ends with ASCII characters other than white space.\<close>

lemma py_strip_ends:
  assumes "s \<noteq> []" and "(of_char (hd s) :: nat) < 0x80" and "\<not> isspace (of_char (hd s))"
    and "(of_char (last s) :: nat) < 0x80" and "\<not> isspace (of_char (last s))"
  shows "py_strip s = s"
proof -
  obtain c r where s: "s = c # r"
    using assms(1) by (cases s) auto
  then have "lstrip s = s"
    using assms(2,3) by (simp add: lstrip_Cons_ascii)
  then show ?thesis
    using assms(1,4,5) by (simp add: py_strip_def rstrip_ends)
qed

lemma py_strip_id:
  assumes "\<forall>c \<in> set s. (of_char c :: nat) < 0x80 \<and> \<not> isspace (of_char c)"
  shows "py_strip s = s"
proof (cases "s = []")
  case True
  then show ?thesis by (simp add: py_strip_def lstrip_Nil rstrip_Nil)
next
  case False
  then show ?thesis
    using assms by (intro py_strip_ends) simp_all
qed

lemma to_ascii_ascii: "\<forall>c \<in> set s. (of_char c :: nat) < 127 \<Longrightarrow> to_ascii s = Some s"
proof (induction s)
  case Nil
  show ?case by (simp add: to_ascii.simps [of "[]"])
next
  case (Cons c r)
  then show ?case
    by (simp add: to_ascii.simps [of "c # r"] utf8_head_ascii)
qed

text \<open>\<^verbatim>\<open>int()\<close> of an ASCII text.\<close>

lemma py_int_ascii:
  "\<forall>c \<in> set s. (of_char c :: nat) < 127 \<Longrightarrow>
   py_int s =
     (case dropWhile Py_ISSPACE s of
        [] \<Rightarrow> None
      | c # cs \<Rightarrow>
          if c = CHR ''-''
            then map_option (\<lambda>n. - int n) (py_nat (rev (dropWhile Py_ISSPACE (rev cs))))
          else if c = CHR ''+''
            then map_option int (py_nat (rev (dropWhile Py_ISSPACE (rev cs))))
          else map_option int (py_nat (rev (dropWhile Py_ISSPACE (rev (c # cs))))))"
  by (simp add: py_int_def to_ascii_ascii)

lemma dec_str_plain:
  "\<forall>c \<in> set (dec_str n). (of_char c :: nat) < 127 \<and> \<not> isspace (of_char c) \<and> \<not> Py_ISSPACE c"
  using dec_str_digits is_digit_plain by blast

lemma py_str_plain:
  "\<forall>c \<in> set (py_str x). (of_char c :: nat) < 127 \<and> \<not> isspace (of_char c) \<and> \<not> Py_ISSPACE c"
  using dec_str_plain [of "nat x"] dec_str_plain [of "nat (- x)"]
  by (auto simp: py_str_def isspace_def Py_ISSPACE_def)

lemma py_strip_py_str: "py_strip (py_str x) = py_str x"
  using py_str_plain [of x] by (intro py_strip_id) auto

lemma py_str_no_comma: "CHR '','' \<notin> set (py_str x)"
  using dec_str_digits is_digit_not_comma
  by (auto simp: py_str_def)

lemma py_str_nonempty: "py_str x \<noteq> []"
  by (simp add: py_str_def dec_str_nonempty)

lemma py_int_py_str: "py_int (py_str x) = Some x"
proof -
  have a: "\<forall>c \<in> set (py_str x). (of_char c :: nat) < 127"
    using py_str_plain [of x] by blast
  have d: "dropWhile Py_ISSPACE (py_str x) = py_str x"
    using py_str_plain [of x] by (intro dropWhile_none) blast
  show ?thesis
  proof (cases "x < 0")
    case True
    have "rev (dropWhile Py_ISSPACE (rev (dec_str (nat (- x))))) = dec_str (nat (- x))"
      using dec_str_plain [of "nat (- x)"] by (intro rtrim_none) blast
    then show ?thesis
      using True d by (simp add: py_int_ascii [OF a]) (simp add: py_str_def py_nat_dec_str)
  next
    case False
    obtain c cs where cs: "dec_str (nat x) = c # cs"
      using dec_str_nonempty [of "nat x"] by (cases "dec_str (nat x)") auto
    then have "is_digit c"
      using dec_str_digits [of "nat x"] by simp
    then have "c \<noteq> CHR ''-''" "c \<noteq> CHR ''+''"
      using is_digit_not_sign by auto
    moreover have "py_nat (c # cs) = Some (nat x)"
      using py_nat_dec_str [of "nat x"] cs by simp
    moreover have "rev (dropWhile Py_ISSPACE (rev (c # cs))) = c # cs"
      using dec_str_plain [of "nat x"] cs by (intro rtrim_none) auto
    moreover have "dropWhile Py_ISSPACE (py_str x) = c # cs"
      using d False cs by (simp add: py_str_def)
    ultimately show ?thesis
      using False by (simp add: py_int_ascii [OF a])
  qed
qed

lemma py_str_inj: "py_str x = py_str y \<Longrightarrow> x = y"
  by (metis py_int_py_str option.inject)

lemma split_comma_nonempty: "split_comma s \<noteq> []"
  by (cases s) auto

lemma split_comma_plain: "CHR '','' \<notin> set x \<Longrightarrow> split_comma x = [x]"
  by (induction x) auto

lemma split_comma_append:
  "CHR '','' \<notin> set x \<Longrightarrow> split_comma (x @ CHR '','' # r) = x # split_comma r"
  by (induction x) auto

lemma split_join_comma:
  "xs \<noteq> [] \<Longrightarrow> \<forall>x \<in> set xs. CHR '','' \<notin> set x \<Longrightarrow> split_comma (join_comma xs) = xs"
  by (induction xs rule: join_comma.induct) (auto simp: split_comma_plain split_comma_append)

lemma join_comma_nonempty: "xs \<noteq> [] \<Longrightarrow> \<forall>x \<in> set xs. x \<noteq> [] \<Longrightarrow> join_comma xs \<noteq> []"
  by (induction xs rule: join_comma.induct) auto

lemma those_map_py_int: "those (map (py_int \<circ> py_str) l) = Some l"
  by (induction l) (auto simp: py_int_py_str)

lemma parse_ids_text: "parse_ids (bot_ids_text (Some l)) = Some l"
proof (cases "l = []")
  case True
  then show ?thesis by (simp add: parse_ids_def bot_ids_text_def)
next
  case False
  have ne: "join_comma (map py_str l) \<noteq> []"
    using False by (intro join_comma_nonempty) (auto simp: py_str_nonempty)
  have sp: "split_comma (join_comma (map py_str l)) = map py_str l"
    using False by (intro split_join_comma) (auto simp: py_str_no_comma)
  have fl: "filter (\<lambda>x. py_strip x \<noteq> []) (map py_str l) = map py_str l"
    by (simp add: filter_id_conv py_strip_py_str py_str_nonempty)
  show ?thesis
    using ne by (simp add: parse_ids_def bot_ids_text_def sp fl those_map_py_int)
qed

section \<open>Facts about the table\<close>

lemma coalesce_simps [simp]: "coalesce None old = old" "coalesce (Some v) old = Some v"
  by (simp_all add: coalesce_def)

lemma save_app_same:
  "save_app db i uid un tr kw i =
     Some (case db i of Some row \<Rightarrow> sql_update row tr kw | None \<Rightarrow> sql_insert i uid un tr kw)"
  by (simp add: save_app_def split: option.splits)

lemma save_app_other: "j \<noteq> i \<Longrightarrow> save_app db i uid un tr kw j = db j"
  by (simp add: save_app_def split: option.splits)

lemma save_app_ids_text:
  "k_bot_message_ids kw = Some l \<Longrightarrow>
   \<exists>row. save_app db i uid un tr kw i = Some row \<and> bot_message_ids row = bot_ids_text (Some l)"
  by (cases "db i") (simp_all add: save_app_same sql_update_def sql_insert_def bot_ids_text_def)

lemma fetch_app_row:
  "db i = Some row \<Longrightarrow> parse_ids (bot_message_ids row) = Some ids \<Longrightarrow>
   fetch_app db i = Inr (Some (with_ids row ids))"
  by (simp add: fetch_app_def)

lemma fetch_app_SomeD:
  "fetch_app db i = Inr (Some a) \<Longrightarrow>
   \<exists>row. db i = Some row \<and> parse_ids (bot_message_ids row) = Some (bot_message_ids a) \<and>
         a = with_ids row (bot_message_ids a)"
  by (auto simp: fetch_app_def with_ids_def split: option.splits)

lemma with_ids_fields [simp]:
  "score (with_ids row ids) = score row"
  "decision (with_ids row ids) = decision row"
  "picker_id (with_ids row ids) = picker_id row"
  "bot_message_ids (with_ids row ids) = ids"
  "user_id (with_ids row ids) = user_id row"
  by (simp_all add: with_ids_def)

lemma py_str_eq_iff [simp]: "py_str x = py_str y \<longleftrightarrow> x = y"
  using py_str_inj by auto

lemma coalesce_bot_ids_text: "coalesce (bot_ids_text (Some l)) old = bot_ids_text (Some l)"
  by (simp add: bot_ids_text_def)

lemma parse_ids_coalesce:
  "parse_ids old \<noteq> None \<Longrightarrow> parse_ids (coalesce (bot_ids_text k) old) \<noteq> None"
  by (cases k) (simp_all add: coalesce_bot_ids_text parse_ids_text, simp add: bot_ids_text_def)

lemma parse_ids_bot_ids_text: "parse_ids (bot_ids_text k) \<noteq> None"
  by (cases k) (simp_all add: parse_ids_text, simp add: bot_ids_text_def parse_ids_def)

section \<open>The invariant is kept\<close>

lemma save_app_wf:
  assumes "wf_store db"
    and "k_picker_id kw \<noteq> Some []"
    and "k_decision kw \<noteq> None \<Longrightarrow> k_score kw \<noteq> None \<or> (\<exists>r. db i = Some r \<and> score r \<noteq> None)"
  shows "wf_store (save_app db i uid un tr kw)"
  unfolding wf_store_def
proof (intro allI impI)
  fix j r
  assume j: "save_app db i uid un tr kw j = Some r"
  show "wf_row r \<and> application_id r = j"
  proof (cases "j = i")
    case False
    then show ?thesis
      using j assms(1) by (simp add: save_app_other wf_store_def)
  next
    case True
    show ?thesis
    proof (cases "db i")
      case None
      then have "r = sql_insert i uid un tr kw"
        using j True by (simp add: save_app_same)
      then show ?thesis
        using assms(2,3) None True
        by (auto simp: wf_row_def sql_insert_def parse_ids_bot_ids_text)
    next
      case (Some row)
      then have r: "r = sql_update row tr kw"
        using j True by (simp add: save_app_same)
      have "wf_row row" and "application_id row = i"
        using assms(1) Some by (auto simp: wf_store_def)
      then show ?thesis
        using assms(2,3) Some True unfolding r
        by (cases "k_picker_id kw"; cases "k_decision kw"; cases "k_score kw")
           (auto simp: wf_row_def sql_update_def parse_ids_coalesce)
    qed
  qed
qed

lemma fetch_app_wf:
  assumes "wf_store db" and "fetch_app db i = Inr (Some a)"
  shows "picker_id a \<noteq> Some []" and "decision a \<noteq> None \<Longrightarrow> score a \<noteq> None"
    and "\<exists>r. db i = Some r \<and> score r = score a \<and> picker_id r = picker_id a
           \<and> decision r = decision a"
proof -
  obtain row where row: "db i = Some row" and a: "a = with_ids row (bot_message_ids a)"
    using fetch_app_SomeD [OF assms(2)] by auto
  have w: "wf_row row"
    using assms(1) row by (auto simp: wf_store_def)
  have f: "score a = score row" "picker_id a = picker_id row" "decision a = decision row"
    by (subst a, simp)+
  show "picker_id a \<noteq> Some []"
    using w f by (simp add: wf_row_def)
  show "decision a \<noteq> None \<Longrightarrow> score a \<noteq> None"
    using w f by (simp add: wf_row_def)
  show "\<exists>r. db i = Some r \<and> score r = score a \<and> picker_id r = picker_id a
           \<and> decision r = decision a"
    using row f by simp
qed

lemma pick_wf:
  assumes wf: "wf_store db"
  shows "wf_store (fst (pick cfg db i u))"
proof (cases "fetch_app db i")
  case (Inl e)
  then show ?thesis using wf by (simp add: pick_def)
next
  case (Inr r)
  show ?thesis
  proof (cases r)
    case None
    then show ?thesis using wf Inr by (simp add: pick_def)
  next
    case (Some a)
    have "wf_store (save_app db i x y z
            (no_kw\<lparr>k_bot_message_ids := m, k_picker_id := Some (py_str (ident u))\<rparr>))"
      for x y z m
      by (rule save_app_wf) (use wf in \<open>simp_all add: no_kw_def py_str_nonempty\<close>)
    then show ?thesis
      using wf Inr Some by (simp add: pick_def)
  qed
qed

lemma score_wf:
  assumes wf: "wf_store db"
  shows "wf_store (fst (ScoreModal_on_submit cfg db i u sv cv))"
proof (cases "fetch_app db i")
  case (Inl e)
  then show ?thesis using wf by (simp add: ScoreModal_on_submit_def)
next
  case (Inr r)
  show ?thesis
  proof (cases r)
    case None
    then show ?thesis using wf Inr by (simp add: ScoreModal_on_submit_def)
  next
    case (Some a)
    have pk: "picker_id a \<noteq> Some []"
      using fetch_app_wf(1) [OF wf] Inr Some by simp
    have "wf_store (save_app db i x y z
            (no_kw\<lparr>k_bot_message_ids := m, k_score := Some sc, k_score_scale := Some scl,
               k_picker_id := picker_id a, k_reviewer_id := rv\<rparr>))"
      for x y z m sc scl rv
      by (rule save_app_wf) (use wf pk in \<open>simp_all add: no_kw_def\<close>)
    then show ?thesis
      using wf Inr Some by (simp add: ScoreModal_on_submit_def split: option.splits)
  qed
qed

lemma decision_wf:
  assumes wf: "wf_store (fst st)"
  shows "wf_store (fst (fst (DecisionModal_on_submit st i dec u rv rs)))"
proof (cases "fetch_app (fst st) i")
  case (Inl e)
  then show ?thesis using wf by (simp add: DecisionModal_on_submit_def)
next
  case (Inr r)
  show ?thesis
  proof (cases r)
    case None
    then show ?thesis using wf Inr by (simp add: DecisionModal_on_submit_def)
  next
    case (Some a)
    have fa: "fetch_app (fst st) i = Inr (Some a)"
      using Inr Some by simp
    have pk: "picker_id a \<noteq> Some []"
      using fetch_app_wf(1) [OF wf fa] .
    show ?thesis
    proof (cases "claimed_by_other a u \<or> score a = None")
      case True
      then show ?thesis
        using wf fa by (auto simp: DecisionModal_on_submit_def)
    next
      case False
      then have sc: "score a \<noteq> None" by simp
      then have ex: "\<exists>r. fst st i = Some r \<and> score r \<noteq> None"
        using fetch_app_wf(3) [OF wf fa] by auto
      define db1 where "db1 = save_app (fst st) i (user_id a) (username a) (transcript a)
                   (no_kw\<lparr>k_bot_message_ids := Some (bot_message_ids a),
                      k_decision := Some dec,
                      k_decision_reason := Some (py_strip rv),
                      k_reviewer_id := Some (py_str (ident u)),
                      k_picker_id := picker_id a\<rparr>)"
      have w1: "wf_store db1"
        unfolding db1_def
        by (rule save_app_wf) (use wf pk ex in \<open>simp_all add: no_kw_def\<close>)
      have w2: "wf_store (save_app db1 i x y z
              \<lparr>k_bot_message_ids = m, k_started_at = s1, k_finished_at = s2,
               k_score = score a, k_score_scale = s3, k_decision = s4,
               k_decision_reason = s5, k_picker_id = picker_id a, k_reviewer_id = s6\<rparr>)"
        for x y z m s1 s2 s3 s4 s5 s6
        by (rule save_app_wf) (use w1 pk sc in simp_all)
      show ?thesis
        using False fa w1 w2
        by (auto simp: DecisionModal_on_submit_def Let_def db1_def [symmetric]
            split: option.splits)
    qed
  qed
qed

lemma message_wf:
  assumes wf: "wf_store (fst st)"
  shows "wf_store (fst (fst (on_message cfg st author in_dm content env)))"
proof -
  have s: "wf_store db \<Longrightarrow> wf_store (save_app db j x y z
            (no_kw\<lparr>k_bot_message_ids := m, k_started_at := s1\<rparr>))"
    for db j x y z m s1
    by (rule save_app_wf) (simp_all add: no_kw_def)
  have f: "wf_store db \<Longrightarrow> wf_store (save_app db j x y z
            (no_kw\<lparr>k_bot_message_ids := m, k_started_at := s1, k_finished_at := s2\<rparr>))"
    for db j x y z m s1 s2
    by (rule save_app_wf) (simp_all add: no_kw_def)
  show ?thesis
    using wf by (simp add: on_message_def Let_def s f split: option.splits)
qed

lemma handle_wf: "wf_store (fst st) \<Longrightarrow> wf_store (fst (handle cfg st e))"
  by (cases e) (simp_all add: pick_wf score_wf decision_wf message_wf)

lemma run_wf: "wf_store (fst st) \<Longrightarrow> wf_store (fst (run cfg st es))"
  by (induction es arbitrary: st) (simp_all add: handle_wf)

lemma reachable_wf: "reachable cfg st \<Longrightarrow> wf_store (fst st)"
proof (induction rule: reachable.induct)
  case init
  show ?case by (simp add: wf_store_def)
next
  case (step st e)
  then show ?case by (simp add: handle_wf)
qed

section \<open>What later versions of a row keep\<close>

lemma row_keeps_refl: "row_keeps r r"
  by (simp add: row_keeps_def)

lemma row_keeps_trans: "row_keeps r1 r2 \<Longrightarrow> row_keeps r2 r3 \<Longrightarrow> row_keeps r1 r3"
  by (auto simp: row_keeps_def)

lemma store_keeps_refl: "store_keeps db db"
  by (simp add: store_keeps_def row_keeps_refl)

lemma store_keeps_trans: "store_keeps d1 d2 \<Longrightarrow> store_keeps d2 d3 \<Longrightarrow> store_keeps d1 d3"
  unfolding store_keeps_def by (meson row_keeps_trans)

lemma sql_update_keeps:
  "(truthy (picker_id r) \<Longrightarrow> coalesce (k_picker_id kw) (picker_id r) = picker_id r) \<Longrightarrow>
   row_keeps r (sql_update r tr kw)"
  by (cases "k_decision kw"; cases "k_score kw") (auto simp: row_keeps_def sql_update_def)

lemma save_app_keeps:
  assumes "store_keeps db0 db"
    and "\<And>r. db j = Some r \<Longrightarrow> truthy (picker_id r) \<Longrightarrow>
           coalesce (k_picker_id kw) (picker_id r) = picker_id r"
  shows "store_keeps db0 (save_app db j uid un tr kw)"
proof -
  have "store_keeps db (save_app db j uid un tr kw)"
    unfolding store_keeps_def
  proof (intro allI impI)
    fix i r
    assume r: "db i = Some r"
    show "\<exists>r'. save_app db j uid un tr kw i = Some r' \<and> row_keeps r r'"
    proof (cases "i = j")
      case True
      then show ?thesis
        using r assms(2) [of r] by (simp add: save_app_same sql_update_keeps)
    next
      case False
      then show ?thesis
        using r by (simp add: save_app_other row_keeps_refl)
    qed
  qed
  with assms(1) show ?thesis
    by (rule store_keeps_trans)
qed

lemma fetch_app_picker:
  "fetch_app db i = Inr (Some a) \<Longrightarrow> db i = Some r \<Longrightarrow> picker_id a = picker_id r"
  by (auto dest!: fetch_app_SomeD) (metis with_ids_fields(3))

lemma pick_keeps: "store_keeps db (fst (pick cfg db i u))"
proof (cases "fetch_app db i")
  case (Inl e)
  then show ?thesis by (simp add: pick_def store_keeps_refl)
next
  case (Inr r)
  show ?thesis
  proof (cases r)
    case None
    then show ?thesis using Inr by (simp add: pick_def store_keeps_refl)
  next
    case (Some a)
    have "\<not> truthy (picker_id a) \<Longrightarrow> store_keeps db (save_app db i x y z
            (no_kw\<lparr>k_bot_message_ids := m, k_picker_id := Some (py_str (ident u))\<rparr>))"
      for x y z m
      using fetch_app_picker [of db i a] Inr Some
      by (intro save_app_keeps store_keeps_refl) auto
    then show ?thesis
      using Inr Some by (simp add: pick_def store_keeps_refl)
  qed
qed

lemma score_keeps: "store_keeps db (fst (ScoreModal_on_submit cfg db i u sv cv))"
proof (cases "fetch_app db i")
  case (Inl e)
  then show ?thesis by (simp add: ScoreModal_on_submit_def store_keeps_refl)
next
  case (Inr r)
  show ?thesis
  proof (cases r)
    case None
    then show ?thesis using Inr by (simp add: ScoreModal_on_submit_def store_keeps_refl)
  next
    case (Some a)
    have "store_keeps db (save_app db i x y z
            (no_kw\<lparr>k_bot_message_ids := m, k_score := Some sc, k_score_scale := Some scl,
               k_picker_id := picker_id a, k_reviewer_id := rv\<rparr>))"
      for x y z m sc scl rv
      using fetch_app_picker [of db i a] Inr Some
      by (intro save_app_keeps store_keeps_refl) (auto simp: coalesce_def split: option.splits)
    then show ?thesis
      using Inr Some
      by (simp add: ScoreModal_on_submit_def store_keeps_refl split: option.splits)
  qed
qed

lemma decision_keeps:
  "store_keeps (fst st) (fst (fst (DecisionModal_on_submit st i dec u rv rs)))"
proof (cases "fetch_app (fst st) i")
  case (Inl e)
  then show ?thesis by (simp add: DecisionModal_on_submit_def store_keeps_refl)
next
  case (Inr r)
  show ?thesis
  proof (cases r)
    case None
    then show ?thesis using Inr by (simp add: DecisionModal_on_submit_def store_keeps_refl)
  next
    case (Some a)
    have fa: "fetch_app (fst st) i = Inr (Some a)"
      using Inr Some by simp
    define db1 where "db1 = save_app (fst st) i (user_id a) (username a) (transcript a)
                   (no_kw\<lparr>k_bot_message_ids := Some (bot_message_ids a),
                      k_decision := Some dec,
                      k_decision_reason := Some (py_strip rv),
                      k_reviewer_id := Some (py_str (ident u)),
                      k_picker_id := picker_id a\<rparr>)"
    have k1: "store_keeps (fst st) db1"
      unfolding db1_def using fetch_app_picker [OF fa]
      by (intro save_app_keeps store_keeps_refl) (auto simp: coalesce_def split: option.splits)
    obtain r0 where r0: "fst st i = Some r0" and p0: "picker_id a = picker_id r0"
      using fetch_app_wf(3) fetch_app_SomeD [OF fa] fetch_app_picker [OF fa] by auto
    obtain r1 where r1: "db1 i = Some r1" and rk: "row_keeps r0 r1"
      using k1 r0 by (auto simp: store_keeps_def)
    have "db1 i = Some (sql_update r0 (transcript a)
                   (no_kw\<lparr>k_bot_message_ids := Some (bot_message_ids a),
                      k_decision := Some dec,
                      k_decision_reason := Some (py_strip rv),
                      k_reviewer_id := Some (py_str (ident u)),
                      k_picker_id := picker_id a\<rparr>))"
      unfolding db1_def by (simp add: save_app_same r0)
    then have p1: "picker_id r1 = picker_id a"
      using r1 p0 by (cases "picker_id r0") (auto simp: sql_update_def)
    have k2: "store_keeps (fst st) (save_app db1 i x y z
              \<lparr>k_bot_message_ids = m, k_started_at = s1, k_finished_at = s2,
               k_score = s7, k_score_scale = s3, k_decision = s4,
               k_decision_reason = s5, k_picker_id = picker_id a, k_reviewer_id = s6\<rparr>)"
      for x y z m s1 s2 s3 s4 s5 s6 s7
      using k1 r1 p1
      by (intro save_app_keeps) (auto simp: coalesce_def split: option.splits)
    show ?thesis
      using fa k1 k2
      by (auto simp: DecisionModal_on_submit_def Let_def db1_def [symmetric] store_keeps_refl
          split: option.splits)
  qed
qed

lemma message_keeps:
  "store_keeps (fst st) (fst (fst (on_message cfg st author in_dm content env)))"
proof -
  have s: "store_keeps db0 db \<Longrightarrow> store_keeps db0 (save_app db j x y z
            (no_kw\<lparr>k_bot_message_ids := m, k_started_at := s1\<rparr>))"
    for db0 db j x y z m s1
    by (rule save_app_keeps) (simp_all add: no_kw_def)
  have f: "store_keeps db0 db \<Longrightarrow> store_keeps db0 (save_app db j x y z
            (no_kw\<lparr>k_bot_message_ids := m, k_started_at := s1, k_finished_at := s2\<rparr>))"
    for db0 db j x y z m s1 s2
    by (rule save_app_keeps) (simp_all add: no_kw_def)
  show ?thesis
    by (simp add: on_message_def Let_def s f store_keeps_refl split: option.splits)
qed

lemma handle_keeps: "store_keeps (fst st) (fst (handle cfg st e))"
  by (cases e)
     (simp_all add: pick_keeps score_keeps decision_keeps message_keeps store_keeps_refl)

lemma run_keeps: "store_keeps (fst st) (fst (run cfg st es))"
proof (induction es arbitrary: st)
  case Nil
  show ?case by (simp add: store_keeps_refl)
next
  case (Cons e es)
  show ?case
    using store_keeps_trans [OF handle_keeps Cons.IH] by simp
qed

section \<open>Evaluating the examples\<close>

lemma reachable_run: "reachable cfg st \<Longrightarrow> reachable cfg (run cfg st es)"
  by (induction es arbitrary: st) (simp_all add: reachable.step)

lemma fetch_app_of_row:
  "wf_store db \<Longrightarrow> db i = Some r \<Longrightarrow>
   \<exists>ids. fetch_app db i = Inr (Some (with_ids r ids))"
  by (auto simp: wf_store_def wf_row_def fetch_app_def split: option.splits)

lemma py_str_opt_Some [simp]: "py_str_opt (Some s) = s"
  by (simp add: py_str_opt_def)

lemma truthy_simps [simp]:
  "truthy None = False" "truthy (Some s) = (s \<noteq> [])"
  by (simp_all add: truthy_def)

lemma fetch_db_of:
  "parse_ids (bot_message_ids r) = Some ids \<Longrightarrow>
   fetch_app (db_of r) ''app_1'' = Inr (Some (with_ids r ids))"
  by (simp add: fetch_app_def db_of_def)

lemma parse_ids_row0 [simp]: "parse_ids (bot_message_ids row0) = Some [50]"
  by (simp add: row0_def parse_ids_text)

lemma row0_fields [simp]:
  "score row0 = None" "picker_id row0 = None" "decision row0 = None"
  "user_id row0 = Some (py_str 7)" "application_id row0 = ''app_1''"
  by (simp_all add: row0_def)

lemma member_fields [simp]:
  "ident (member n) = n" "is_member (member n) = True" "roles (member n) = []"
  "is_bot (member n) = False" "tag (member n) = ''member''"
  by (simp_all add: member_def)

lemma py_int_examples:
  "py_int (py_strip ''7'') = Some 7" "py_int (py_strip ''abc'') = None"
  "py_int (py_strip ''10'') = Some 10" "py_int (py_strip '' 8'') = Some 8"
  by (simp_all add: py_strip_def lstrip_Cons_ascii rstrip_ends isspace_def py_int_ascii
      Py_ISSPACE_def py_nat_def is_digit_def digit_val_def)

text \<open>
  A no-break space and a fullwidth digit eight, \<^verbatim>\<open>"\u00a0\uff18"\<close>: Python strips the
  space and reads the digit.
\<close>

lemma py_int_unicode_example:
  "py_strip [CHR 0xC2, CHR 0xA0, CHR 0xEF, CHR 0xBC, CHR 0x98] = [CHR 0xEF, CHR 0xBC, CHR 0x98]"
  "py_int [CHR 0xEF, CHR 0xBC, CHR 0x98] = Some 8"
proof -
  have l: "lstrip [CHR 0xC2, CHR 0xA0, CHR 0xEF, CHR 0xBC, CHR 0x98]
      = [CHR 0xEF, CHR 0xBC, CHR 0x98]"
    by (simp add: lstrip.simps [of "[CHR 0xC2, CHR 0xA0, CHR 0xEF, CHR 0xBC, CHR 0x98]"]
        lstrip.simps [of "[CHR 0xEF, CHR 0xBC, CHR 0x98]"]
        utf8_head_def cont_def isspace_def)
  have r: "rstrip [CHR 0xEF, CHR 0xBC, CHR 0x98] = [CHR 0xEF, CHR 0xBC, CHR 0x98]"
    by (simp add: rstrip.simps [of "[CHR 0xEF, CHR 0xBC, CHR 0x98]"] utf8_last_def ends_at_def
        utf8_head_def cont_def isspace_def)
  show "py_strip [CHR 0xC2, CHR 0xA0, CHR 0xEF, CHR 0xBC, CHR 0x98]
      = [CHR 0xEF, CHR 0xBC, CHR 0x98]"
    by (simp add: py_strip_def l r)
  have d: "decimal 0xFF18 = Some 8"
    by (simp add: decimal_def decimal_zeros_def)
  have "(of_char (char_of (56::nat) :: char) :: nat) = of_char CHR ''8''"
    by simp
  then have c: "(char_of (56::nat) :: char) = CHR ''8''"
    by (simp only: of_char_eq_iff)
  have "to_ascii [CHR 0xEF, CHR 0xBC, CHR 0x98] = Some ''8''"
    by (simp add: to_ascii.simps [of "[CHR 0xEF, CHR 0xBC, CHR 0x98]"] to_ascii.simps [of "[]"]
        utf8_head_def cont_def isspace_def d digit_char_def c)
  then show "py_int [CHR 0xEF, CHR 0xBC, CHR 0x98] = Some 8"
    by (simp add: py_int_def Py_ISSPACE_def py_nat_def is_digit_def digit_val_def)
qed

lemma flow_state:
  "run cfg0 (Map.empty, Map.empty) flow0 = (decided_db, Map.empty)"
  unfolding flow0_def decided_row_def decided_db_def
  apply (simp add: cfg0_def env0_def menv0_def apply_command_def new_app_id_def Let_def)
  apply (simp add: on_message_def Let_def)
  apply (simp add: save_app_def no_kw_def sql_insert_def sql_update_def coalesce_bot_ids_text)
  apply (simp add: ScoreModal_on_submit_def fetch_app_def parse_ids_text with_ids_def
      claimed_by_other_def lacks_reviewer_role_def py_int_examples no_kw_def save_app_def
      sql_update_def coalesce_bot_ids_text)
  apply (simp add: DecisionModal_on_submit_def fetch_app_def parse_ids_text with_ids_def
      claimed_by_other_def py_int_py_str no_kw_def save_app_def Let_def
      sql_update_def coalesce_bot_ids_text py_strip_ends isspace_def)
  done

lemma flow_reachable: "reachable cfg0 (decided_db, Map.empty)"
  using reachable_run [OF reachable.init, of cfg0 flow0] by (simp add: flow_state)

section \<open>Facts about the handlers and the examples\<close>

lemma decision_sets_decision:
  assumes "fetch_app db i = Inr (Some a)" and "\<not> claimed_by_other a u" and "score a \<noteq> None"
  shows "snd (DecisionModal_on_submit (db, og) i dec u rv rs) = [Reply (DecisionRecorded dec) True]"
    and "\<exists>r'. fst (fst (DecisionModal_on_submit (db, og) i dec u rv rs)) i = Some r'
           \<and> decision r' = Some dec \<and> decision_reason r' = Some (py_strip rv)
           \<and> reviewer_id r' = Some (py_str (ident u))"
proof -
  show "snd (DecisionModal_on_submit (db, og) i dec u rv rs) = [Reply (DecisionRecorded dec) True]"
    using assms by (auto simp: DecisionModal_on_submit_def Let_def)
  obtain row where row: "db i = Some row"
    using fetch_app_SomeD [OF assms(1)] by auto
  show "\<exists>r'. fst (fst (DecisionModal_on_submit (db, og) i dec u rv rs)) i = Some r'
           \<and> decision r' = Some dec \<and> decision_reason r' = Some (py_strip rv)
           \<and> reviewer_id r' = Some (py_str (ident u))"
    using assms row
    by (auto simp: DecisionModal_on_submit_def Let_def save_app_same sql_update_def no_kw_def
        split: option.splits)
qed

lemma parse_ids_decided_row [simp]: "parse_ids (bot_message_ids decided_row) = Some [54]"
  by (simp add: decided_row_def parse_ids_text)

lemma decided_row_fields [simp]:
  "score decided_row = Some 8" "picker_id decided_row = None"
  "decision decided_row = Some ''Approved''" "user_id decided_row = Some (py_str 7)"
  by (simp_all add: decided_row_def)

lemma db_of_apply [simp]: "db_of r ''app_1'' = Some r"
  by (simp add: db_of_def)

lemma decided_db_apply [simp]: "decided_db ''app_20240101100000_012345'' = Some decided_row"
  by (simp add: decided_db_def)

lemma fetch_decided_row:
  "fetch_app decided_db ''app_20240101100000_012345'' = Inr (Some (with_ids decided_row [54]))"
  by (simp add: fetch_app_def)

lemma fetch_row0: "fetch_app (db_of row0) ''app_1'' = Inr (Some (with_ids row0 [50]))"
  by (simp add: fetch_db_of)

lemma fetch_app_fields:
  assumes "fetch_app db i = Inr (Some a)"
  shows "\<exists>r. db i = Some r \<and> a = with_ids r (bot_message_ids a)"
  using fetch_app_SomeD [OF assms] by auto

lemma pick_sets_picker:
  assumes "fetch_app db i = Inr (Some a)" and "picker_id a = None"
    and "\<not> lacks_reviewer_role cfg u"
  shows "snd (pick cfg db i u) = [Reply Claimed True]"
    and "\<exists>r. fst (pick cfg db i u) i = Some r \<and> picker_id r = Some (py_str (ident u))"
proof -
  show "snd (pick cfg db i u) = [Reply Claimed True]"
    using assms by (simp add: pick_def)
  obtain row where "db i = Some row"
    using fetch_app_fields [OF assms(1)] by auto
  then show "\<exists>r. fst (pick cfg db i u) i = Some r \<and> picker_id r = Some (py_str (ident u))"
    using assms by (simp add: pick_def save_app_same sql_update_def no_kw_def)
qed

lemma pick_already_claimed:
  assumes "wf_store db" and "db i = Some r" and "truthy (picker_id r)"
  shows "pick cfg db i u = (db, [Reply AlreadyClaimed True])"
proof -
  obtain ids where "fetch_app db i = Inr (Some (with_ids r ids))"
    using fetch_app_of_row [OF assms(1,2)] by auto
  then show ?thesis
    using assms(3) by (simp add: pick_def)
qed

lemma wf_row0: "wf_row row0"
  by (simp add: wf_row_def)

lemma wf_db_of: "wf_row r \<Longrightarrow> application_id r = ''app_1'' \<Longrightarrow> wf_store (db_of r)"
  by (simp add: wf_store_def db_of_def)

lemma lacks_examples [simp]:
  "lacks_reviewer_role cfg9 (member n)" "\<not> lacks_reviewer_role cfg0 (member n)"
  by (simp_all add: lacks_reviewer_role_def cfg9_def cfg0_def)

lemma on_interaction_buttons:
  assumes "fetch_app db i = Inr (Some a)"
  shows "on_interaction cfg db u (Some (''score_'' @ i)) dm_ok =
           (if claimed_by_other a u then [Reply Forbidden True]
            else [SendModal (ScoreModal i)])"
    and "on_interaction cfg db u (Some (''approve_'' @ i)) dm_ok =
           (if claimed_by_other a u then [Reply Forbidden True]
            else [SendModal (DecisionModal i ''Approved'')])"
    and "on_interaction cfg db u (Some (''deny_'' @ i)) dm_ok =
           (if claimed_by_other a u then [Reply Forbidden True]
            else [SendModal (DecisionModal i ''Denied'')])"
  using assms by (simp_all add: on_interaction_def startswith_def after_underscore_def)

lemma fetch_after_save:
  assumes "k_bot_message_ids kw = Some l"
  shows "\<exists>row. fetch_app (save_app db i uid un tr kw) i = Inr (Some (with_ids row l))
           \<and> save_app db i uid un tr kw i = Some row
           \<and> (k_finished_at kw \<noteq> None \<longrightarrow> finished_at row = k_finished_at kw)"
proof -
  obtain row where row: "save_app db i uid un tr kw i = Some row"
    and rtext: "bot_message_ids row = bot_ids_text (Some l)"
    using save_app_ids_text [OF assms, of db i uid un tr] by auto
  have "fetch_app (save_app db i uid un tr kw) i = Inr (Some (with_ids row l))"
    using row rtext by (intro fetch_app_row) (simp_all add: parse_ids_text)
  moreover have "k_finished_at kw \<noteq> None \<longrightarrow> finished_at row = k_finished_at kw"
    using row by (cases "db i") (auto simp: save_app_same sql_update_def sql_insert_def)
  ultimately show ?thesis
    using row by blast
qed

lemma new_app_id_eq_iff:
  "length stamp = length stamp' \<Longrightarrow>
   new_app_id stamp h = new_app_id stamp' h' \<longleftrightarrow> stamp = stamp' \<and> take 6 h = take 6 h'"
  by (auto simp: new_app_id_def)

lemma apply_example:
  "apply_command cfg0 Map.empty (member 7) 1704103200 env0 =
     (Map.empty(py_str 7 \<mapsto>
        \<lparr>st_app_id = ''app_20240101100000_012345'', st_started = ''2024-01-01T10:00:00'',
         st_q_index = 0, st_transcript = [], st_bot_message_ids = [50, 51],
         st_last = 1704103200\<rparr>), [Reply CheckDMs True])"
  by (simp add: apply_command_def cfg0_def env0_def new_app_id_def Let_def)

lemma answered_example:
  "snd (run cfg0 (Map.empty, Map.empty)
     [Apply (member 7) 1704103200 env0, Message (member 7) True ''To help.'' menv0]) = Map.empty"
  by (simp add: apply_example) (simp add: on_message_def Let_def cfg0_def menv0_def)

lemma completion_discards:
  assumes "\<not> is_bot author" and "snd st (py_str (ident author)) = Some state"
    and "st_q_index state + 1 = length (QUESTIONS cfg)" and "summary_sent env = Some sid"
  shows "snd (fst (on_message cfg st author True content env)) (py_str (ident author)) = None"
  using assms by (simp add: on_message_def Let_def)

lemma decision_discards:
  assumes "fetch_app db i = Inr (Some a)" and "\<not> claimed_by_other a u" and "score a \<noteq> None"
  shows "snd (fst (DecisionModal_on_submit (db, og) i dec u rv rs)) (py_str_opt (user_id a)) = None"
  using assms by (auto simp: DecisionModal_on_submit_def Let_def)

lemma save_app_identity:
  assumes "db i = Some r0"
  shows "\<exists>r. save_app db i uid un tr kw i = Some r \<and> application_id r = application_id r0
           \<and> user_id r = user_id r0 \<and> started_at r = started_at r0"
  using assms by (simp add: save_app_same sql_update_def)

lemma first_answer_inserts:
  assumes "\<not> is_bot author" and "snd st (py_str (ident author)) = Some state"
    and "st_q_index state < length (QUESTIONS cfg)" and "fst st (st_app_id state) = None"
  shows "\<exists>r. fst (fst (on_message cfg st author True content env)) (st_app_id state) = Some r
           \<and> application_id r = st_app_id state
           \<and> user_id r = Some (py_str (ident author))
           \<and> started_at r = Some (st_started state)"
proof -
  define good where "good db \<longleftrightarrow> (\<exists>r. db (st_app_id state) = Some r
           \<and> application_id r = st_app_id state
           \<and> user_id r = Some (py_str (ident author))
           \<and> started_at r = Some (st_started state))" for db :: store
  have base: "good (save_app (fst st) (st_app_id state) (Some (py_str (ident author))) un tr
      (no_kw\<lparr>k_bot_message_ids := m, k_started_at := Some (st_started state)\<rparr>))" for un tr m
    using assms(4) by (simp add: good_def save_app_same sql_insert_def no_kw_def)
  have step: "good db \<Longrightarrow> good (save_app db (st_app_id state) x y z kw)" for db x y z kw
    unfolding good_def using save_app_identity [of db "st_app_id state" _ x y z kw] by force
  have "good (fst (fst (on_message cfg st author True content env)))"
    using assms(1-3) by (simp add: on_message_def Let_def base step split: option.splits)
  then show ?thesis
    by (simp add: good_def)
qed

section \<open>Claims\<close>

text \<open>
  C10. Round trip of the message-id list through the table: for every application id,
  new or already stored, and every list of ints, the empty one included, \<open>fetch_app\<close>
  right after a \<open>save_app\<close> with that list returns a record whose
  \<open>bot_message_ids\<close> is the list saved.
\<close>

theorem fetch_after_save_roundtrip:
  "\<exists>a. fetch_app (save_app db i uid un tr (kw\<lparr>k_bot_message_ids := Some l\<rparr>)) i = Inr (Some a)
       \<and> bot_message_ids a = l"
proof -
  obtain row where row: "save_app db i uid un tr (kw\<lparr>k_bot_message_ids := Some l\<rparr>) i = Some row"
    and rtext: "bot_message_ids row = bot_ids_text (Some l)"
    using save_app_ids_text [of "kw\<lparr>k_bot_message_ids := Some l\<rparr>" l db i uid un tr] by auto
  have "fetch_app (save_app db i uid un tr (kw\<lparr>k_bot_message_ids := Some l\<rparr>)) i
          = Inr (Some (with_ids row l))"
    using row rtext by (intro fetch_app_row) (simp_all add: parse_ids_text)
  then show ?thesis
    by simp
qed

text \<open>
  C1, as amended. For every application whose score is null, submitting the decision
  modal fails and leaves the table and the conversations unchanged: with Forbidden when
  the application is claimed by another actor, else with ScoreRequired; both replies are
  ephemeral. In every state the bot reaches from an empty table, a row with a decision
  has a score.
\<close>

theorem decide_without_score:
  "(fetch_app db i = Inr (Some a) \<and> score a = None \<longrightarrow>
      DecisionModal_on_submit (db, og) i dec u rv rs =
        ((db, og), [Reply (if claimed_by_other a u then Forbidden else ScoreRequired) True]))
   \<and> (reachable cfg (db, og) \<and> db i = Some r \<and> decision r \<noteq> None \<longrightarrow> score r \<noteq> None)"
proof (intro conjI impI)
  assume "fetch_app db i = Inr (Some a) \<and> score a = None"
  then show "DecisionModal_on_submit (db, og) i dec u rv rs =
        ((db, og), [Reply (if claimed_by_other a u then Forbidden else ScoreRequired) True])"
    by (simp add: DecisionModal_on_submit_def)
next
  assume h: "reachable cfg (db, og) \<and> db i = Some r \<and> decision r \<noteq> None"
  then have "wf_store db"
    using reachable_wf [of cfg "(db, og)"] by simp
  with h have "wf_row r"
    by (auto simp: wf_store_def)
  with h show "score r \<noteq> None"
    by (simp add: wf_row_def)
qed

theorem decide_without_score_witness:
  "fetch_app (db_of row0) ''app_1'' = Inr (Some (with_ids row0 [50]))
   \<and> score (with_ids row0 [50]) = None
   \<and> DecisionModal_on_submit (db_of row0, Map.empty) ''app_1'' ''Approved'' (member 2)
        ''ok'' None = ((db_of row0, Map.empty), [Reply ScoreRequired True])
   \<and> reachable cfg0 (decided_db, Map.empty)
   \<and> decided_db ''app_20240101100000_012345'' = Some decided_row
   \<and> decision decided_row \<noteq> None \<and> score decided_row \<noteq> None"
  using decide_without_score [of "db_of row0" "''app_1''" "with_ids row0 [50]" Map.empty
      "''Approved''" "member 2" "''ok''" None cfg0 decided_row]
    decide_without_score [of decided_db
      "''app_20240101100000_012345''" "with_ids row0 [50]" Map.empty
      "''Approved''" "member 2" "''ok''" None cfg0 decided_row]
    flow_reachable
  by (simp add: fetch_db_of claimed_by_other_def)

theorem decide_without_score_counterexample:
  "fetch_app (db_of (row0\<lparr>picker_id := Some (py_str 1)\<rparr>)) ''app_1''
     = Inr (Some (with_ids (row0\<lparr>picker_id := Some (py_str 1)\<rparr>) [50]))
   \<and> score (with_ids (row0\<lparr>picker_id := Some (py_str 1)\<rparr>) [50]) = None
   \<and> snd (DecisionModal_on_submit (db_of (row0\<lparr>picker_id := Some (py_str 1)\<rparr>), Map.empty)
        ''app_1'' ''Approved'' (member 2) ''ok'' None) = [Reply Forbidden True]
   \<and> snd (DecisionModal_on_submit (db_of (row0\<lparr>picker_id := Some (py_str 1)\<rparr>), Map.empty)
        ''app_1'' ''Approved'' (member 2) ''ok'' None) \<noteq> [Reply ScoreRequired True]"
  by (simp add: DecisionModal_on_submit_def fetch_db_of claimed_by_other_def py_str_nonempty)

text \<open>
  C2, as amended. Once the decision of an application is non-null it stays non-null
  through every later event; it is not locked to its value: a later decide that passes
  the picker check on a scored application is recorded and stores the decision it
  submits, the reason it submits (stripped of surrounding white space) and the actor as
  reviewer, whatever was stored before.
\<close>

theorem decision_not_terminal:
  "(db i = Some r \<and> decision r \<noteq> None \<longrightarrow>
      (\<exists>r'. fst (run cfg (db, og) es) i = Some r' \<and> decision r' \<noteq> None))
   \<and> (fetch_app db i = Inr (Some a) \<and> \<not> claimed_by_other a u \<and> score a \<noteq> None \<longrightarrow>
      snd (DecisionModal_on_submit (db, og) i dec u rv rs) = [Reply (DecisionRecorded dec) True]
      \<and> (\<exists>r'. fst (fst (DecisionModal_on_submit (db, og) i dec u rv rs)) i = Some r'
            \<and> decision r' = Some dec \<and> decision_reason r' = Some (py_strip rv)
            \<and> reviewer_id r' = Some (py_str (ident u))))"
proof (intro conjI impI)
  assume h: "db i = Some r \<and> decision r \<noteq> None"
  have "store_keeps db (fst (run cfg (db, og) es))"
    using run_keeps [of "(db, og)" cfg es] by simp
  with h show "\<exists>r'. fst (run cfg (db, og) es) i = Some r' \<and> decision r' \<noteq> None"
    unfolding store_keeps_def row_keeps_def by blast
next
  assume h: "fetch_app db i = Inr (Some a) \<and> \<not> claimed_by_other a u \<and> score a \<noteq> None"
  then show "snd (DecisionModal_on_submit (db, og) i dec u rv rs)
      = [Reply (DecisionRecorded dec) True]"
    using decision_sets_decision(1) [of db i a u og dec rv rs] by blast
  from h show "\<exists>r'. fst (fst (DecisionModal_on_submit (db, og) i dec u rv rs)) i = Some r'
            \<and> decision r' = Some dec \<and> decision_reason r' = Some (py_strip rv)
            \<and> reviewer_id r' = Some (py_str (ident u))"
    using decision_sets_decision(2) [of db i a u og dec rv rs] by blast
qed

theorem decision_not_terminal_witness:
  "decided_db ''app_20240101100000_012345'' = Some decided_row \<and> decision decided_row \<noteq> None
   \<and> (\<exists>r'. fst (run cfg0 (decided_db, Map.empty)
                [Pick ''app_20240101100000_012345'' (member 1)]) ''app_20240101100000_012345''
              = Some r' \<and> decision r' \<noteq> None)
   \<and> fetch_app decided_db ''app_20240101100000_012345''
        = Inr (Some (with_ids decided_row [54]))
   \<and> \<not> claimed_by_other (with_ids decided_row [54]) (member 1)
   \<and> score (with_ids decided_row [54]) \<noteq> None
   \<and> snd (DecisionModal_on_submit (decided_db, Map.empty)
                ''app_20240101100000_012345'' ''Denied'' (member 1) '' On reflection, no.''
                None) = [Reply (DecisionRecorded ''Denied'') True]
   \<and> (\<exists>r'. fst (fst (DecisionModal_on_submit (decided_db, Map.empty)
                ''app_20240101100000_012345'' ''Denied'' (member 1) '' On reflection, no.''
                None)) ''app_20240101100000_012345'' = Some r'
            \<and> decision r' = Some ''Denied''
            \<and> decision_reason r' = Some ''On reflection, no.''
            \<and> reviewer_id r' = Some (py_str 1))"
proof -
  have p: "py_strip '' On reflection, no.'' = ''On reflection, no.''"
    by (simp add: py_strip_def lstrip_Cons_ascii rstrip_ends isspace_def)
  show ?thesis
    using decision_not_terminal [of decided_db "''app_20240101100000_012345''" decided_row cfg0
        Map.empty "[Pick ''app_20240101100000_012345'' (member 1)]" "with_ids decided_row [54]"
        "member 1" "''Denied''" "'' On reflection, no.''" None]
    by (simp add: fetch_decided_row claimed_by_other_def p)
qed

theorem decision_not_terminal_counterexample:
  "run cfg0 (Map.empty, Map.empty) flow0 = (decided_db, Map.empty)
   \<and> map_option decision (decided_db ''app_20240101100000_012345'') = Some (Some ''Approved'')
   \<and> map_option decision
        (fst (fst (DecisionModal_on_submit (decided_db, Map.empty)
                ''app_20240101100000_012345'' ''Denied'' (member 1) ''On reflection, no.''
                None)) ''app_20240101100000_012345'')
      = Some (Some ''Denied'')"
  by (simp add: flow_state DecisionModal_on_submit_def fetch_decided_row claimed_by_other_def
      Let_def save_app_same sql_update_def no_kw_def py_int_py_str)

text \<open>
  C4, as amended. On an application that \<open>fetch_app\<close> returns, the Pick button fails
  with AlreadyClaimed whenever \<open>picker_id\<close> is already non-null. Otherwise it fails
  with Unauthorized, changing nothing, when the actor is a guild member without the
  configured reviewer role; else it sets \<open>picker_id\<close> to the actor's id. After a
  successful claim every later claim on that application, by any actor and after any
  further events, fails with AlreadyClaimed.
\<close>

theorem pick_claims_once:
  assumes "wf_store db" and "fetch_app db i = Inr (Some a)"
  shows "(picker_id a \<noteq> None \<longrightarrow> pick cfg db i u = (db, [Reply AlreadyClaimed True]))
    \<and> (picker_id a = None \<and> lacks_reviewer_role cfg u \<longrightarrow>
         pick cfg db i u = (db, [Reply Unauthorized True]))
    \<and> (picker_id a = None \<and> \<not> lacks_reviewer_role cfg u \<longrightarrow>
         snd (pick cfg db i u) = [Reply Claimed True]
         \<and> (\<exists>r. fst (pick cfg db i u) i = Some r \<and> picker_id r = Some (py_str (ident u)))
         \<and> (\<forall>es u2. snd (pick cfg (fst (run cfg (fst (pick cfg db i u), og) es)) i u2)
               = [Reply AlreadyClaimed True]))"
proof (intro conjI impI allI)
  assume "picker_id a \<noteq> None"
  moreover have "picker_id a \<noteq> Some []"
    using fetch_app_wf(1) [OF assms] .
  ultimately have "truthy (picker_id a)"
    by (cases "picker_id a") auto
  then show "pick cfg db i u = (db, [Reply AlreadyClaimed True])"
    using assms(2) by (simp add: pick_def)
next
  assume "picker_id a = None \<and> lacks_reviewer_role cfg u"
  then show "pick cfg db i u = (db, [Reply Unauthorized True])"
    using assms(2) by (simp add: pick_def)
next
  assume h: "picker_id a = None \<and> \<not> lacks_reviewer_role cfg u"
  then show "snd (pick cfg db i u) = [Reply Claimed True]"
    using pick_sets_picker(1) [OF assms(2)] by simp
  from h show "\<exists>r. fst (pick cfg db i u) i = Some r \<and> picker_id r = Some (py_str (ident u))"
    using pick_sets_picker(2) [OF assms(2)] by simp
next
  fix es u2
  assume h: "picker_id a = None \<and> \<not> lacks_reviewer_role cfg u"
  define db1 where "db1 = fst (pick cfg db i u)"
  define db2 where "db2 = fst (run cfg (db1, og) es)"
  obtain r1 where r1: "db1 i = Some r1" and p1: "picker_id r1 = Some (py_str (ident u))"
    using pick_sets_picker(2) [OF assms(2)] h unfolding db1_def by blast
  have t1: "truthy (picker_id r1)"
    using p1 by (simp add: py_str_nonempty)
  have "store_keeps db1 db2"
    using run_keeps [of "(db1, og)" cfg es] by (simp add: db2_def)
  then obtain r2 where r2: "db2 i = Some r2" and p2: "picker_id r2 = picker_id r1"
    using r1 t1 unfolding store_keeps_def row_keeps_def by blast
  have "wf_store db1"
    unfolding db1_def by (rule pick_wf [OF assms(1)])
  then have "wf_store db2"
    using run_wf [of "(db1, og)" cfg es] by (simp add: db2_def)
  then have "pick cfg db2 i u2 = (db2, [Reply AlreadyClaimed True])"
    using r2 p2 t1 by (intro pick_already_claimed [of db2 i r2]) simp_all
  then show "snd (pick cfg (fst (run cfg (fst (pick cfg db i u), og) es)) i u2)
               = [Reply AlreadyClaimed True]"
    by (simp add: db1_def db2_def)
qed

theorem pick_claims_once_witness:
  "wf_store (db_of row0) \<and> fetch_app (db_of row0) ''app_1'' = Inr (Some (with_ids row0 [50]))
   \<and> picker_id (with_ids row0 [50]) = None \<and> \<not> lacks_reviewer_role cfg0 (member 1)
   \<and> snd (pick cfg0 (db_of row0) ''app_1'' (member 1)) = [Reply Claimed True]
   \<and> snd (pick cfg0 (fst (run cfg0 (fst (pick cfg0 (db_of row0) ''app_1'' (member 1)),
                Map.empty) [])) ''app_1'' (member 2)) = [Reply AlreadyClaimed True]
   \<and> lacks_reviewer_role cfg9 (member 1)
   \<and> pick cfg9 (db_of row0) ''app_1'' (member 1) = (db_of row0, [Reply Unauthorized True])
   \<and> wf_store (db_of (row0\<lparr>picker_id := Some (py_str 1)\<rparr>))
   \<and> fetch_app (db_of (row0\<lparr>picker_id := Some (py_str 1)\<rparr>)) ''app_1''
        = Inr (Some (with_ids (row0\<lparr>picker_id := Some (py_str 1)\<rparr>) [50]))
   \<and> pick cfg0 (db_of (row0\<lparr>picker_id := Some (py_str 1)\<rparr>)) ''app_1'' (member 2)
        = (db_of (row0\<lparr>picker_id := Some (py_str 1)\<rparr>), [Reply AlreadyClaimed True])"
proof -
  have w0: "wf_store (db_of row0)"
    by (simp add: wf_db_of wf_row0)
  have w1: "wf_store (db_of (row0\<lparr>picker_id := Some (py_str 1)\<rparr>))"
    by (rule wf_db_of) (simp_all add: wf_row_def py_str_nonempty)
  have f1: "fetch_app (db_of (row0\<lparr>picker_id := Some (py_str 1)\<rparr>)) ''app_1''
        = Inr (Some (with_ids (row0\<lparr>picker_id := Some (py_str 1)\<rparr>) [50]))"
    by (simp add: fetch_db_of)
  note t = pick_claims_once [OF w0 fetch_row0, of cfg0 "member 1" Map.empty]
  then have "\<forall>es u2. snd (pick cfg0 (fst (run cfg0
        (fst (pick cfg0 (db_of row0) ''app_1'' (member 1)), Map.empty) es)) ''app_1'' u2)
      = [Reply AlreadyClaimed True]"
    by simp
  then have "snd (pick cfg0 (fst (run cfg0
        (fst (pick cfg0 (db_of row0) ''app_1'' (member 1)), Map.empty) [])) ''app_1'' (member 2))
      = [Reply AlreadyClaimed True]"
    by blast
  then show ?thesis
    using t pick_claims_once [OF w0 fetch_row0, of cfg9 "member 1" Map.empty]
      pick_claims_once [OF w1 f1, of cfg0 "member 2" Map.empty] w0 w1 f1 fetch_row0
    by simp
qed

theorem pick_claims_once_counterexample:
  "fetch_app (db_of row0) ''app_1'' = Inr (Some (with_ids row0 [50]))
   \<and> picker_id (with_ids row0 [50]) = None
   \<and> pick cfg9 (db_of row0) ''app_1'' (member 1) = (db_of row0, [Reply Unauthorized True])
   \<and> map_option picker_id (fst (pick cfg9 (db_of row0) ''app_1'' (member 1)) ''app_1'')
        = Some None"
  by (simp add: fetch_row0 pick_def)

text \<open>
  C5. For every application with a non-null \<open>picker_id\<close> in a well-formed table, a
  score or decide action by an actor whose id is not the picker's is rejected with an
  ephemeral Forbidden reply and changes neither the table nor the conversations: at the
  submission of the score modal, at the submission of the decision modal, and already
  at the Score, Approve and Deny buttons.
\<close>

theorem others_are_forbidden:
  assumes "wf_store db" and "fetch_app db i = Inr (Some a)"
    and "picker_id a \<noteq> None" and "picker_id a \<noteq> Some (py_str (ident u))"
  shows "ScoreModal_on_submit cfg db i u sv cv = (db, [Reply Forbidden True])
    \<and> DecisionModal_on_submit (db, og) i dec u rv rs = ((db, og), [Reply Forbidden True])
    \<and> on_interaction cfg db u (Some (''score_'' @ i)) dm_ok = [Reply Forbidden True]
    \<and> on_interaction cfg db u (Some (''approve_'' @ i)) dm_ok = [Reply Forbidden True]
    \<and> on_interaction cfg db u (Some (''deny_'' @ i)) dm_ok = [Reply Forbidden True]"
proof -
  have "picker_id a \<noteq> Some []"
    using fetch_app_wf(1) [OF assms(1,2)] .
  then have "claimed_by_other a u"
    using assms(3,4) by (cases "picker_id a") (auto simp: claimed_by_other_def)
  then show ?thesis
    using assms(2) on_interaction_buttons [OF assms(2), of cfg u dm_ok]
    by (simp add: ScoreModal_on_submit_def DecisionModal_on_submit_def)
qed

theorem others_are_forbidden_witness:
  "wf_store (db_of (row0\<lparr>picker_id := Some (py_str 1)\<rparr>))
   \<and> fetch_app (db_of (row0\<lparr>picker_id := Some (py_str 1)\<rparr>)) ''app_1''
        = Inr (Some (with_ids (row0\<lparr>picker_id := Some (py_str 1)\<rparr>) [50]))
   \<and> picker_id (with_ids (row0\<lparr>picker_id := Some (py_str 1)\<rparr>) [50]) \<noteq> None
   \<and> picker_id (with_ids (row0\<lparr>picker_id := Some (py_str 1)\<rparr>) [50])
        \<noteq> Some (py_str (ident (member 2)))
   \<and> ScoreModal_on_submit cfg0 (db_of (row0\<lparr>picker_id := Some (py_str 1)\<rparr>)) ''app_1''
        (member 2) ''10'' ''8''
        = (db_of (row0\<lparr>picker_id := Some (py_str 1)\<rparr>), [Reply Forbidden True])
   \<and> DecisionModal_on_submit (db_of (row0\<lparr>picker_id := Some (py_str 1)\<rparr>), Map.empty)
        ''app_1'' ''Denied'' (member 2) ''no'' None
        = ((db_of (row0\<lparr>picker_id := Some (py_str 1)\<rparr>), Map.empty), [Reply Forbidden True])"
proof -
  have w1: "wf_store (db_of (row0\<lparr>picker_id := Some (py_str 1)\<rparr>))"
    by (rule wf_db_of) (simp_all add: wf_row_def py_str_nonempty)
  have f1: "fetch_app (db_of (row0\<lparr>picker_id := Some (py_str 1)\<rparr>)) ''app_1''
        = Inr (Some (with_ids (row0\<lparr>picker_id := Some (py_str 1)\<rparr>) [50]))"
    by (simp add: fetch_db_of)
  show ?thesis
    using others_are_forbidden [OF w1 f1, of "member 2" cfg0 "''10''" "''8''" Map.empty
        "''Denied''" "''no''" None True] w1 f1
    by simp
qed

text \<open>
  C9. The decision modal checks no reviewer role. It never replies Unauthorized; on
  every unclaimed application with a score, a decide by any actor, whatever the roles
  and whatever reviewer role is configured, is recorded, and the Approve and Deny
  buttons open the modal. The same actor, when lacking the configured role, is refused
  with Unauthorized by the score modal and by the Pick button.
\<close>

theorem decide_checks_no_role:
  "Reply Unauthorized e \<notin> set (snd (DecisionModal_on_submit (db, og) i dec u rv rs))
   \<and> (fetch_app db i = Inr (Some a) \<and> picker_id a = None \<and> score a \<noteq> None \<longrightarrow>
        snd (DecisionModal_on_submit (db, og) i dec u rv rs) = [Reply (DecisionRecorded dec) True]
        \<and> (\<exists>r. fst (fst (DecisionModal_on_submit (db, og) i dec u rv rs)) i = Some r
               \<and> decision r = Some dec \<and> reviewer_id r = Some (py_str (ident u)))
        \<and> on_interaction cfg db u (Some (''approve_'' @ i)) dm_ok
             = [SendModal (DecisionModal i ''Approved'')]
        \<and> on_interaction cfg db u (Some (''deny_'' @ i)) dm_ok
             = [SendModal (DecisionModal i ''Denied'')]
        \<and> (lacks_reviewer_role cfg u \<longrightarrow>
             ScoreModal_on_submit cfg db i u sv cv = (db, [Reply Unauthorized True])
             \<and> pick cfg db i u = (db, [Reply Unauthorized True])))"
proof (intro conjI impI)
  show "Reply Unauthorized e \<notin> set (snd (DecisionModal_on_submit (db, og) i dec u rv rs))"
    by (auto simp: DecisionModal_on_submit_def Let_def split: sum.splits option.splits)
next
  assume h: "fetch_app db i = Inr (Some a) \<and> picker_id a = None \<and> score a \<noteq> None"
  then have nc: "\<not> claimed_by_other a u"
    by (simp add: claimed_by_other_def)
  show "snd (DecisionModal_on_submit (db, og) i dec u rv rs) = [Reply (DecisionRecorded dec) True]"
    using decision_sets_decision(1) [of db i a u og dec rv rs] h nc by simp
  show "\<exists>r. fst (fst (DecisionModal_on_submit (db, og) i dec u rv rs)) i = Some r
               \<and> decision r = Some dec \<and> reviewer_id r = Some (py_str (ident u))"
    using decision_sets_decision(2) [of db i a u og dec rv rs] h nc by blast
  show "on_interaction cfg db u (Some (''approve_'' @ i)) dm_ok
             = [SendModal (DecisionModal i ''Approved'')]"
    using h nc on_interaction_buttons [of db i a cfg u dm_ok] by simp
  show "on_interaction cfg db u (Some (''deny_'' @ i)) dm_ok
             = [SendModal (DecisionModal i ''Denied'')]"
    using h nc on_interaction_buttons [of db i a cfg u dm_ok] by simp
next
  assume h: "fetch_app db i = Inr (Some a) \<and> picker_id a = None \<and> score a \<noteq> None"
    and l: "lacks_reviewer_role cfg u"
  then have nc: "\<not> claimed_by_other a u"
    by (simp add: claimed_by_other_def)
  show "ScoreModal_on_submit cfg db i u sv cv = (db, [Reply Unauthorized True])"
    using h l nc by (simp add: ScoreModal_on_submit_def)
  show "pick cfg db i u = (db, [Reply Unauthorized True])"
    using h l by (simp add: pick_def)
qed

theorem decide_checks_no_role_witness:
  "fetch_app (db_of (row0\<lparr>score := Some 8, score_scale := Some 10\<rparr>)) ''app_1''
     = Inr (Some (with_ids (row0\<lparr>score := Some 8, score_scale := Some 10\<rparr>) [50]))
   \<and> picker_id (with_ids (row0\<lparr>score := Some 8, score_scale := Some 10\<rparr>) [50]) = None
   \<and> score (with_ids (row0\<lparr>score := Some 8, score_scale := Some 10\<rparr>) [50]) \<noteq> None
   \<and> lacks_reviewer_role cfg9 (member 2)
   \<and> snd (DecisionModal_on_submit
        (db_of (row0\<lparr>score := Some 8, score_scale := Some 10\<rparr>), Map.empty)
        ''app_1'' ''Approved'' (member 2) ''fine'' None) = [Reply (DecisionRecorded ''Approved'') True]
   \<and> on_interaction cfg9 (db_of (row0\<lparr>score := Some 8, score_scale := Some 10\<rparr>)) (member 2)
        (Some ''approve_app_1'') True = [SendModal (DecisionModal ''app_1'' ''Approved'')]
   \<and> ScoreModal_on_submit cfg9 (db_of (row0\<lparr>score := Some 8, score_scale := Some 10\<rparr>))
        ''app_1'' (member 2) ''10'' ''8''
        = (db_of (row0\<lparr>score := Some 8, score_scale := Some 10\<rparr>), [Reply Unauthorized True])
   \<and> pick cfg9 (db_of (row0\<lparr>score := Some 8, score_scale := Some 10\<rparr>)) ''app_1'' (member 2)
        = (db_of (row0\<lparr>score := Some 8, score_scale := Some 10\<rparr>), [Reply Unauthorized True])"
proof -
  have f: "fetch_app (db_of (row0\<lparr>score := Some 8, score_scale := Some 10\<rparr>)) ''app_1''
     = Inr (Some (with_ids (row0\<lparr>score := Some 8, score_scale := Some 10\<rparr>) [50]))"
    by (simp add: fetch_db_of)
  show ?thesis
    using decide_checks_no_role [of True "db_of (row0\<lparr>score := Some 8, score_scale := Some 10\<rparr>)"
        Map.empty "''app_1''" "''Approved''" "member 2" "''fine''" None
        "with_ids (row0\<lparr>score := Some 8, score_scale := Some 10\<rparr>) [50]" cfg9 True
        "''10''" "''8''"] f
    by simp
qed

text \<open>
  C7, as amended. A score submission that reaches the validation (the application is
  found, it is not claimed by another actor, and the actor passes the role check when it
  is unclaimed) fails with InvalidFormat, changing nothing, if the scale or the score
  is no integer text; else it fails with InvalidScale, changing nothing, if the scale
  is not 5, 10, 50 or 100; else, for every score, zero, negative or above the scale, it
  stores the score, the scale and the actor as reviewer in place of what was stored,
  leaves decision, picker, applicant and the other rows as they are, and replies with
  the saved pair.
\<close>

theorem score_validation:
  assumes "fetch_app db i = Inr (Some a)" and "\<not> claimed_by_other a u"
    and "truthy (picker_id a) \<or> \<not> lacks_reviewer_role cfg u"
  shows "(py_int (py_strip sv) = None \<or> py_int (py_strip cv) = None \<longrightarrow>
            ScoreModal_on_submit cfg db i u sv cv = (db, [Reply InvalidFormat True]))
    \<and> (py_int (py_strip sv) = Some scale \<and> py_int (py_strip cv) = Some sc
         \<and> scale \<notin> {5, 10, 50, 100} \<longrightarrow>
            ScoreModal_on_submit cfg db i u sv cv = (db, [Reply InvalidScale True]))
    \<and> (py_int (py_strip sv) = Some scale \<and> py_int (py_strip cv) = Some sc
         \<and> scale \<in> {5, 10, 50, 100} \<longrightarrow>
            snd (ScoreModal_on_submit cfg db i u sv cv) = [Reply (SavedScore sc scale) True]
            \<and> (\<exists>r0 r. db i = Some r0
                  \<and> fst (ScoreModal_on_submit cfg db i u sv cv) i = Some r
                  \<and> score r = Some sc \<and> score_scale r = Some scale
                  \<and> reviewer_id r = Some (py_str (ident u))
                  \<and> decision r = decision r0 \<and> decision_reason r = decision_reason r0
                  \<and> picker_id r = picker_id r0 \<and> user_id r = user_id r0
                  \<and> username r = username r0 \<and> transcript r = transcript r0
                  \<and> started_at r = started_at r0 \<and> finished_at r = finished_at r0)
            \<and> (\<forall>j. j \<noteq> i \<longrightarrow> fst (ScoreModal_on_submit cfg db i u sv cv) j = db j))"
proof (intro conjI impI allI)
  assume "py_int (py_strip sv) = None \<or> py_int (py_strip cv) = None"
  then show "ScoreModal_on_submit cfg db i u sv cv = (db, [Reply InvalidFormat True])"
    using assms by (auto simp: ScoreModal_on_submit_def split: option.splits)
next
  assume "py_int (py_strip sv) = Some scale \<and> py_int (py_strip cv) = Some sc
         \<and> scale \<notin> {5, 10, 50, 100}"
  then show "ScoreModal_on_submit cfg db i u sv cv = (db, [Reply InvalidScale True])"
    using assms by (auto simp: ScoreModal_on_submit_def)
next
  assume h: "py_int (py_strip sv) = Some scale \<and> py_int (py_strip cv) = Some sc
         \<and> scale \<in> {5, 10, 50, 100}"
  then have eq: "ScoreModal_on_submit cfg db i u sv cv =
      (save_app db i (user_id a) (username a) (transcript a)
         (no_kw\<lparr>k_bot_message_ids := Some (bot_message_ids a),
            k_score := Some sc, k_score_scale := Some scale,
            k_picker_id := picker_id a,
            k_reviewer_id := Some (py_str (ident u))\<rparr>),
       [Reply (SavedScore sc scale) True])"
    using assms by (auto simp: ScoreModal_on_submit_def)
  show "snd (ScoreModal_on_submit cfg db i u sv cv) = [Reply (SavedScore sc scale) True]"
    by (simp add: eq)
  obtain r0 where r0: "db i = Some r0" and a: "a = with_ids r0 (bot_message_ids a)"
    using fetch_app_fields [OF assms(1)] by auto
  have f: "picker_id a = picker_id r0" "transcript a = transcript r0"
    by (subst a, simp add: with_ids_def)+
  show "\<exists>r0 r. db i = Some r0
                  \<and> fst (ScoreModal_on_submit cfg db i u sv cv) i = Some r
                  \<and> score r = Some sc \<and> score_scale r = Some scale
                  \<and> reviewer_id r = Some (py_str (ident u))
                  \<and> decision r = decision r0 \<and> decision_reason r = decision_reason r0
                  \<and> picker_id r = picker_id r0 \<and> user_id r = user_id r0
                  \<and> username r = username r0 \<and> transcript r = transcript r0
                  \<and> started_at r = started_at r0 \<and> finished_at r = finished_at r0"
    using r0 f
    by (cases "picker_id r0") (simp_all add: eq save_app_same sql_update_def no_kw_def)
  fix j
  assume "j \<noteq> i"
  then show "fst (ScoreModal_on_submit cfg db i u sv cv) j = db j"
    by (simp add: eq save_app_other)
qed

theorem score_validation_witness:
  "fetch_app (db_of row0) ''app_1'' = Inr (Some (with_ids row0 [50]))
   \<and> \<not> claimed_by_other (with_ids row0 [50]) (member 1)
   \<and> \<not> lacks_reviewer_role cfg0 (member 1)
   \<and> py_int (py_strip ''abc'') = None
   \<and> ScoreModal_on_submit cfg0 (db_of row0) ''app_1'' (member 1) ''10'' ''abc''
        = (db_of row0, [Reply InvalidFormat True])
   \<and> py_int (py_strip ''7'') = Some 7 \<and> py_int (py_strip '' 8'') = Some 8
   \<and> ScoreModal_on_submit cfg0 (db_of row0) ''app_1'' (member 1) ''7'' '' 8''
        = (db_of row0, [Reply InvalidScale True])
   \<and> py_int (py_strip ''10'') = Some 10
   \<and> snd (ScoreModal_on_submit cfg0 (db_of row0) ''app_1'' (member 1) ''10'' '' 8'')
        = [Reply (SavedScore 8 10) True]
   \<and> py_int (py_strip [CHR 0xC2, CHR 0xA0, CHR 0xEF, CHR 0xBC, CHR 0x98]) = Some 8
   \<and> snd (ScoreModal_on_submit cfg0 (db_of row0) ''app_1'' (member 1) ''10''
             [CHR 0xC2, CHR 0xA0, CHR 0xEF, CHR 0xBC, CHR 0x98])
        = [Reply (SavedScore 8 10) True]"
proof -
  have nc: "\<not> claimed_by_other (with_ids row0 [50]) (member 1)"
    by (simp add: claimed_by_other_def)
  have ok: "truthy (picker_id (with_ids row0 [50])) \<or> \<not> lacks_reviewer_role cfg0 (member 1)"
    by simp
  show ?thesis
    using score_validation [OF fetch_row0 nc ok, of "''10''" "''abc''" 10 8]
      score_validation [OF fetch_row0 nc ok, of "''7''" "'' 8''" 7 8]
      score_validation [OF fetch_row0 nc ok, of "''10''" "'' 8''" 10 8]
      score_validation [OF fetch_row0 nc ok, of "''10''"
        "[CHR 0xC2, CHR 0xA0, CHR 0xEF, CHR 0xBC, CHR 0x98]" 10 8]
      fetch_row0 nc
    by (simp add: py_int_examples py_int_unicode_example)
qed

theorem score_validation_counterexample:
  "py_int (py_strip ''7'') = Some 7 \<and> (7::int) \<notin> {5, 10, 50, 100}
   \<and> ScoreModal_on_submit cfg0 (db_of row0) ''app_1'' (member 1) ''7'' ''abc''
        = (db_of row0, [Reply InvalidFormat True])
   \<and> ScoreModal_on_submit cfg0 (db_of row0) ''app_1'' (member 1) ''7'' ''abc''
        \<noteq> (db_of row0, [Reply InvalidScale True])
   \<and> ScoreModal_on_submit cfg9 (db_of row0) ''app_1'' (member 1) ''7'' '' 8''
        = (db_of row0, [Reply Unauthorized True])
   \<and> ScoreModal_on_submit cfg9 (db_of row0) ''app_1'' (member 1) ''7'' '' 8''
        \<noteq> (db_of row0, [Reply InvalidScale True])"
  by (simp add: ScoreModal_on_submit_def fetch_row0 claimed_by_other_def py_int_examples)

text \<open>
  C8, as amended. On an id the table holds, \<open>save_app\<close> always replaces the
  transcript by the value passed, null included; replaces the message ids by the text of
  the list passed, when one is passed, without merging; sets \<open>finished_at\<close>,
  \<open>score\<close>, \<open>score_scale\<close>, \<open>decision\<close>, \<open>decision_reason\<close>, \<open>picker_id\<close>
  and \<open>reviewer_id\<close> to the value passed when it is non-null and keeps them when it
  is null; and never changes \<open>application_id\<close>, \<open>user_id\<close>, \<open>username\<close> and
  \<open>started_at\<close>, whatever is passed. On an unseen id it inserts a row holding the
  values passed. Every other row stays as it is.
\<close>

theorem save_app_frame:
  "(db i = Some r0 \<longrightarrow>
      (\<exists>r. save_app db i uid un tr kw i = Some r
         \<and> application_id r = application_id r0 \<and> user_id r = user_id r0
         \<and> username r = username r0 \<and> started_at r = started_at r0
         \<and> transcript r = tr
         \<and> bot_message_ids r =
             (case k_bot_message_ids kw of None \<Rightarrow> bot_message_ids r0
              | Some l \<Rightarrow> Some (join_comma (map py_str l)))
         \<and> finished_at r = (case k_finished_at kw of None \<Rightarrow> finished_at r0 | Some v \<Rightarrow> Some v)
         \<and> score r = (case k_score kw of None \<Rightarrow> score r0 | Some v \<Rightarrow> Some v)
         \<and> score_scale r = (case k_score_scale kw of None \<Rightarrow> score_scale r0 | Some v \<Rightarrow> Some v)
         \<and> decision r = (case k_decision kw of None \<Rightarrow> decision r0 | Some v \<Rightarrow> Some v)
         \<and> decision_reason r =
             (case k_decision_reason kw of None \<Rightarrow> decision_reason r0 | Some v \<Rightarrow> Some v)
         \<and> picker_id r = (case k_picker_id kw of None \<Rightarrow> picker_id r0 | Some v \<Rightarrow> Some v)
         \<and> reviewer_id r =
             (case k_reviewer_id kw of None \<Rightarrow> reviewer_id r0 | Some v \<Rightarrow> Some v)))
   \<and> (db i = None \<longrightarrow>
      save_app db i uid un tr kw i =
        Some \<lparr>application_id = i, user_id = uid, username = un,
          started_at = k_started_at kw, finished_at = k_finished_at kw, transcript = tr,
          bot_message_ids = map_option (\<lambda>l. join_comma (map py_str l)) (k_bot_message_ids kw),
          score = k_score kw, score_scale = k_score_scale kw, decision = k_decision kw,
          decision_reason = k_decision_reason kw, picker_id = k_picker_id kw,
          reviewer_id = k_reviewer_id kw\<rparr>)
   \<and> (\<forall>j. j \<noteq> i \<longrightarrow> save_app db i uid un tr kw j = db j)"
proof (intro conjI impI allI)
  assume "db i = Some r0"
  then have "save_app db i uid un tr kw i = Some (sql_update r0 tr kw)"
    by (simp add: save_app_same)
  then show "\<exists>r. save_app db i uid un tr kw i = Some r
         \<and> application_id r = application_id r0 \<and> user_id r = user_id r0
         \<and> username r = username r0 \<and> started_at r = started_at r0
         \<and> transcript r = tr
         \<and> bot_message_ids r =
             (case k_bot_message_ids kw of None \<Rightarrow> bot_message_ids r0
              | Some l \<Rightarrow> Some (join_comma (map py_str l)))
         \<and> finished_at r = (case k_finished_at kw of None \<Rightarrow> finished_at r0 | Some v \<Rightarrow> Some v)
         \<and> score r = (case k_score kw of None \<Rightarrow> score r0 | Some v \<Rightarrow> Some v)
         \<and> score_scale r = (case k_score_scale kw of None \<Rightarrow> score_scale r0 | Some v \<Rightarrow> Some v)
         \<and> decision r = (case k_decision kw of None \<Rightarrow> decision r0 | Some v \<Rightarrow> Some v)
         \<and> decision_reason r =
             (case k_decision_reason kw of None \<Rightarrow> decision_reason r0 | Some v \<Rightarrow> Some v)
         \<and> picker_id r = (case k_picker_id kw of None \<Rightarrow> picker_id r0 | Some v \<Rightarrow> Some v)
         \<and> reviewer_id r =
             (case k_reviewer_id kw of None \<Rightarrow> reviewer_id r0 | Some v \<Rightarrow> Some v)"
    by (simp add: sql_update_def coalesce_def bot_ids_text_def split: option.splits)
next
  assume "db i = None"
  then show "save_app db i uid un tr kw i =
        Some \<lparr>application_id = i, user_id = uid, username = un,
          started_at = k_started_at kw, finished_at = k_finished_at kw, transcript = tr,
          bot_message_ids = map_option (\<lambda>l. join_comma (map py_str l)) (k_bot_message_ids kw),
          score = k_score kw, score_scale = k_score_scale kw, decision = k_decision kw,
          decision_reason = k_decision_reason kw, picker_id = k_picker_id kw,
          reviewer_id = k_reviewer_id kw\<rparr>"
    by (simp add: save_app_same sql_insert_def bot_ids_text_def)
next
  fix j
  assume "j \<noteq> i"
  then show "save_app db i uid un tr kw j = db j"
    by (simp add: save_app_other)
qed

theorem save_app_frame_witness:
  "db_of row0 ''app_1'' = Some row0
   \<and> (\<exists>r. save_app (db_of row0) ''app_1'' (Some (py_str 7)) (Some ''ann'') (Some ''t'')
            (no_kw\<lparr>k_score := Some 0\<rparr>) ''app_1'' = Some r
          \<and> score r = Some 0 \<and> transcript r = Some ''t''
          \<and> picker_id r = picker_id row0 \<and> bot_message_ids r = bot_message_ids row0)
   \<and> db_of row0 ''app_2'' = None
   \<and> map_option application_id
        (save_app (db_of row0) ''app_2'' (Some (py_str 8)) (Some ''bob'') (Some ''t'') no_kw
           ''app_2'') = Some ''app_2''
   \<and> ''app_1'' \<noteq> ''app_2''
   \<and> save_app (db_of row0) ''app_2'' (Some (py_str 8)) (Some ''bob'') (Some ''t'') no_kw
        ''app_1'' = db_of row0 ''app_1''"
proof -
  note a = save_app_frame [of "db_of row0" "''app_1''" row0 "Some (py_str 7)" "Some ''ann''"
      "Some ''t''" "no_kw\<lparr>k_score := Some 0\<rparr>"]
  note b = save_app_frame [of "db_of row0" "''app_2''" row0 "Some (py_str 8)" "Some ''bob''"
      "Some ''t''" no_kw]
  have n: "db_of row0 ''app_2'' = None"
    by (simp add: db_of_def)
  from b have "\<forall>j. j \<noteq> ''app_2'' \<longrightarrow>
      save_app (db_of row0) ''app_2'' (Some (py_str 8)) (Some ''bob'') (Some ''t'') no_kw j
        = db_of row0 j"
    by blast
  then have c: "save_app (db_of row0) ''app_2'' (Some (py_str 8)) (Some ''bob'') (Some ''t'')
      no_kw ''app_1'' = db_of row0 ''app_1''"
    by simp
  from a have "\<exists>r. save_app (db_of row0) ''app_1'' (Some (py_str 7)) (Some ''ann'') (Some ''t'')
            (no_kw\<lparr>k_score := Some 0\<rparr>) ''app_1'' = Some r
          \<and> score r = Some 0 \<and> transcript r = Some ''t''
          \<and> picker_id r = picker_id row0 \<and> bot_message_ids r = bot_message_ids row0"
    by (auto simp: no_kw_def)
  moreover from b n have "map_option application_id
        (save_app (db_of row0) ''app_2'' (Some (py_str 8)) (Some ''bob'') (Some ''t'') no_kw
           ''app_2'') = Some ''app_2''"
    by simp
  ultimately show ?thesis
    using n c by simp
qed

theorem save_app_frame_counterexample:
  "username row0 = Some ''ann'' \<and> transcript row0 \<noteq> None
   \<and> map_option username
        (save_app (db_of row0) ''app_1'' (Some (py_str 7)) (Some ''ann_renamed'') None no_kw
           ''app_1'')
      = Some (Some ''ann'')
   \<and> map_option transcript
        (save_app (db_of row0) ''app_1'' (Some (py_str 7)) (Some ''ann_renamed'') None no_kw
           ''app_1'')
      = Some None"
  by (simp add: save_app_same sql_update_def) (simp add: row0_def)

text \<open>
  C6. When the applicant answers the final question and the summary message is sent, the
  handler ends without an exception, the conversation state of the applicant is
  discarded, and the record that \<open>fetch_app\<close> then returns for the application has
  exactly one message id, the id of the summary message, and the finish time. This holds
  whether or not the clean-up of the earlier messages raises; if the id of the summary
  is new, no id of an earlier prompt is persisted.
\<close>

theorem completion_keeps_summary_only:
  assumes "\<not> is_bot author" and "snd st (py_str (ident author)) = Some state"
    and "st_q_index state + 1 = length (QUESTIONS cfg)"
    and "summary_sent env = Some sid"
  shows "snd (on_message cfg st author True content (env\<lparr>cleanup_raises := b\<rparr>)) = None
    \<and> snd (fst (on_message cfg st author True content (env\<lparr>cleanup_raises := b\<rparr>)))
         (py_str (ident author)) = None
    \<and> (\<exists>a. fetch_app (fst (fst (on_message cfg st author True content
                 (env\<lparr>cleanup_raises := b\<rparr>)))) (st_app_id state) = Inr (Some a)
          \<and> bot_message_ids a = [sid]
          \<and> finished_at a = Some (finished_iso env)
          \<and> (sid \<notin> set (st_bot_message_ids state) \<longrightarrow>
               set (bot_message_ids a) \<inter> set (st_bot_message_ids state) = {}))"
proof -
  define uid where "uid = py_str (ident author)"
  define tr where "tr = Some (join_newline (st_transcript state @
      [qa_entry (QUESTIONS cfg ! st_q_index state) (py_strip content)]))"
  define db1 where "db1 = save_app (fst st) (st_app_id state) (Some uid) (Some (tag author)) tr
      (no_kw\<lparr>k_bot_message_ids := Some (st_bot_message_ids state),
         k_started_at := Some (st_started state)\<rparr>)"
  define db2 where "db2 = save_app db1 (st_app_id state) (Some uid) (Some (tag author)) tr
      (no_kw\<lparr>k_bot_message_ids := Some (st_bot_message_ids state),
         k_started_at := Some (st_started state), k_finished_at := Some (finished_iso env)\<rparr>)"
  define kw3 where "kw3 = no_kw\<lparr>k_bot_message_ids := Some [sid],
         k_started_at := Some (st_started state), k_finished_at := Some (finished_iso env)\<rparr>"
  define db3 where "db3 = save_app db2 (st_app_id state) (Some uid) (Some (tag author)) tr kw3"
  have eq: "on_message cfg st author True content (env\<lparr>cleanup_raises := b\<rparr>) =
      ((db3, (snd st)(uid := None)), None)"
    using assms
    by (simp add: on_message_def Let_def uid_def [symmetric] tr_def [symmetric]
        db1_def [symmetric] db2_def [symmetric] kw3_def [symmetric] db3_def [symmetric])
  have k: "k_bot_message_ids kw3 = Some [sid]" "k_finished_at kw3 = Some (finished_iso env)"
    by (simp_all add: kw3_def no_kw_def)
  obtain row where f: "fetch_app db3 (st_app_id state) = Inr (Some (with_ids row [sid]))"
    and fin: "finished_at row = Some (finished_iso env)"
    using fetch_after_save [OF k(1), of db2 "st_app_id state" "Some uid" "Some (tag author)" tr]
      k(2) unfolding db3_def by auto
  have "finished_at (with_ids row [sid]) = Some (finished_iso env)"
    using fin by (simp add: with_ids_def)
  then have "\<exists>a. fetch_app db3 (st_app_id state) = Inr (Some a) \<and> bot_message_ids a = [sid]
          \<and> finished_at a = Some (finished_iso env)
          \<and> (sid \<notin> set (st_bot_message_ids state) \<longrightarrow>
               set (bot_message_ids a) \<inter> set (st_bot_message_ids state) = {})"
    using f by (intro exI [of _ "with_ids row [sid]"]) simp
  then show ?thesis
    by (simp add: eq uid_def)
qed

theorem completion_keeps_summary_only_witness:
  "\<not> is_bot (member 7)
   \<and> fst (apply_command cfg0 Map.empty (member 7) 1704103200 env0) (py_str (ident (member 7)))
       = Some \<lparr>st_app_id = ''app_20240101100000_012345'', st_started = ''2024-01-01T10:00:00'',
           st_q_index = 0, st_transcript = [], st_bot_message_ids = [50, 51],
           st_last = 1704103200\<rparr>
   \<and> (0::nat) + 1 = length (QUESTIONS cfg0) \<and> summary_sent menv0 = Some 53
   \<and> (53::int) \<notin> set [50, 51]
   \<and> (\<exists>a. fetch_app (fst (fst (on_message cfg0
               (Map.empty, fst (apply_command cfg0 Map.empty (member 7) 1704103200 env0))
               (member 7) True ''To help.'' (menv0\<lparr>cleanup_raises := True\<rparr>))))
             ''app_20240101100000_012345'' = Inr (Some a)
          \<and> bot_message_ids a = [53]
          \<and> set (bot_message_ids a) \<inter> set [50, 51] = {})"
proof -
  have s: "fst (apply_command cfg0 Map.empty (member 7) 1704103200 env0) (py_str (ident (member 7)))
       = Some \<lparr>st_app_id = ''app_20240101100000_012345'', st_started = ''2024-01-01T10:00:00'',
           st_q_index = 0, st_transcript = [], st_bot_message_ids = [50, 51],
           st_last = 1704103200\<rparr>"
    by (simp add: apply_command_def cfg0_def env0_def new_app_id_def Let_def)
  have q: "(0::nat) + 1 = length (QUESTIONS cfg0)" and m: "summary_sent menv0 = Some 53"
    by (simp_all add: cfg0_def menv0_def)
  show ?thesis
    using completion_keeps_summary_only [of "member 7"
        "(Map.empty, fst (apply_command cfg0 Map.empty (member 7) 1704103200 env0))"
        "\<lparr>st_app_id = ''app_20240101100000_012345'', st_started = ''2024-01-01T10:00:00'',
           st_q_index = 0, st_transcript = [], st_bot_message_ids = [50, 51],
           st_last = 1704103200\<rparr>" cfg0 menv0 53 "''To help.''" True] s q m
    by auto
qed

text \<open>
  C3, as amended. While the conversation state of an applicant from a start at
  \<open>t0\<close> is held, a start request at \<open>t\<close> with \<open>t - t0 < cooldown\<close> is rejected
  with the ephemeral wait message and changes neither the conversations nor the table.
  When no state is held the last start counts as time 0: the request is rejected if
  \<open>t < cooldown\<close> and passes the gate otherwise; with a state held it passes when
  \<open>t - t0\<close> is at least the cooldown. The state is discarded when the conversation
  completes, when a decision on the applicant's application is recorded, and at a
  restart. A request that passes never writes the table; if the DM can be opened it
  installs a fresh conversation state with the newly generated id, and if the welcome
  and the first question are delivered the only reply is the invitation to check the
  DMs. The id is built from the clock second and six hex digits of a random UUID: two
  ids are equal exactly when both agree. The record of the application is inserted by
  the first answer.
\<close>

theorem cooldown_gate:
  "(og (py_str (ident u)) = Some s \<and> now - st_last s < of_int (COOLDOWN cfg) \<longrightarrow>
      apply_command cfg og u now env = (og, [Reply CooldownActive True])
      \<and> handle cfg (db, og) (Apply u now env) = (db, og))
   \<and> (og (py_str (ident u)) = None \<and> now < of_int (COOLDOWN cfg) \<longrightarrow>
      apply_command cfg og u now env = (og, [Reply CooldownActive True]))
   \<and> (\<not> now - (case og (py_str (ident u)) of None \<Rightarrow> 0 | Some s \<Rightarrow> st_last s)
            < of_int (COOLDOWN cfg) \<longrightarrow>
      fst (handle cfg (db, og) (Apply u now env)) = db
      \<and> hd (snd (apply_command cfg og u now env)) = Reply CheckDMs True
      \<and> (create_dm_ok env \<longrightarrow>
           (\<exists>s'. fst (apply_command cfg og u now env) (py_str (ident u)) = Some s'
              \<and> st_app_id s' = new_app_id (clock_stamp env) (uuid_hex env)
              \<and> st_q_index s' = 0 \<and> st_transcript s' = [] \<and> st_last s' = now))
      \<and> (create_dm_ok env \<and> welcome_sent env = Some m \<and> question_sent env = Some qm
           \<and> QUESTIONS cfg \<noteq> [] \<longrightarrow>
           snd (apply_command cfg og u now env) = [Reply CheckDMs True]))
   \<and> (\<not> is_bot u \<and> og (py_str (ident u)) = Some s
        \<and> st_q_index s + 1 = length (QUESTIONS cfg) \<and> summary_sent menv = Some sid \<longrightarrow>
        snd (fst (on_message cfg (db, og) u True content menv)) (py_str (ident u)) = None)
   \<and> (fetch_app db i = Inr (Some a) \<and> \<not> claimed_by_other a v \<and> score a \<noteq> None \<longrightarrow>
        snd (fst (DecisionModal_on_submit (db, og) i dec v rv rs)) (py_str_opt (user_id a))
          = None)
   \<and> snd (handle cfg (db, og) Restart) = Map.empty
   \<and> (\<not> is_bot u \<and> og (py_str (ident u)) = Some s
        \<and> st_q_index s < length (QUESTIONS cfg) \<and> db (st_app_id s) = None \<longrightarrow>
        (\<exists>r. fst (fst (on_message cfg (db, og) u True content menv)) (st_app_id s) = Some r
           \<and> application_id r = st_app_id s \<and> user_id r = Some (py_str (ident u))
           \<and> started_at r = Some (st_started s)))
   \<and> (length stamp = length stamp' \<longrightarrow>
        (new_app_id stamp h = new_app_id stamp' h' \<longleftrightarrow> stamp = stamp' \<and> take 6 h = take 6 h'))"
proof (intro conjI impI)
  assume h: "og (py_str (ident u)) = Some s \<and> now - st_last s < of_int (COOLDOWN cfg)"
  then show "apply_command cfg og u now env = (og, [Reply CooldownActive True])"
    by (simp add: apply_command_def)
  then show "handle cfg (db, og) (Apply u now env) = (db, og)"
    by simp
next
  assume "og (py_str (ident u)) = None \<and> now < of_int (COOLDOWN cfg)"
  then show "apply_command cfg og u now env = (og, [Reply CooldownActive True])"
    by (simp add: apply_command_def)
next
  assume h: "\<not> now - (case og (py_str (ident u)) of None \<Rightarrow> 0 | Some s \<Rightarrow> st_last s)
            < of_int (COOLDOWN cfg)"
  show "fst (handle cfg (db, og) (Apply u now env)) = db"
    by simp
  show "hd (snd (apply_command cfg og u now env)) = Reply CheckDMs True"
    using h by (simp add: apply_command_def Let_def split: option.splits list.splits)
  {
    assume "create_dm_ok env"
    then show "\<exists>s'. fst (apply_command cfg og u now env) (py_str (ident u)) = Some s'
              \<and> st_app_id s' = new_app_id (clock_stamp env) (uuid_hex env)
              \<and> st_q_index s' = 0 \<and> st_transcript s' = [] \<and> st_last s' = now"
      using h by (simp add: apply_command_def Let_def split: option.splits list.splits)
  }
  {
    assume "create_dm_ok env \<and> welcome_sent env = Some m \<and> question_sent env = Some qm
           \<and> QUESTIONS cfg \<noteq> []"
    then show "snd (apply_command cfg og u now env) = [Reply CheckDMs True]"
      using h by (simp add: apply_command_def Let_def split: option.splits list.splits)
  }
next
  assume "\<not> is_bot u \<and> og (py_str (ident u)) = Some s
        \<and> st_q_index s + 1 = length (QUESTIONS cfg) \<and> summary_sent menv = Some sid"
  then show "snd (fst (on_message cfg (db, og) u True content menv)) (py_str (ident u)) = None"
    using completion_discards [of u "(db, og)" s cfg menv sid content] by simp
next
  assume "fetch_app db i = Inr (Some a) \<and> \<not> claimed_by_other a v \<and> score a \<noteq> None"
  then show "snd (fst (DecisionModal_on_submit (db, og) i dec v rv rs))
      (py_str_opt (user_id a)) = None"
    using decision_discards [of db i a v og dec rv rs] by simp
next
  show "snd (handle cfg (db, og) Restart) = Map.empty"
    by simp
next
  assume "\<not> is_bot u \<and> og (py_str (ident u)) = Some s
        \<and> st_q_index s < length (QUESTIONS cfg) \<and> db (st_app_id s) = None"
  then show "\<exists>r. fst (fst (on_message cfg (db, og) u True content menv)) (st_app_id s) = Some r
           \<and> application_id r = st_app_id s \<and> user_id r = Some (py_str (ident u))
           \<and> started_at r = Some (st_started s)"
    using first_answer_inserts [of u "(db, og)" s cfg content menv] by simp
next
  assume "length stamp = length stamp'"
  then show "new_app_id stamp h = new_app_id stamp' h' \<longleftrightarrow> stamp = stamp' \<and> take 6 h = take 6 h'"
    by (rule new_app_id_eq_iff)
qed

theorem cooldown_gate_witness:
  "fst (apply_command cfg0 Map.empty (member 7) 1704103200 env0) (py_str (ident (member 7)))
      = Some \<lparr>st_app_id = ''app_20240101100000_012345'', st_started = ''2024-01-01T10:00:00'',
         st_q_index = 0, st_transcript = [], st_bot_message_ids = [50, 51],
         st_last = 1704103200\<rparr>
   \<and> (1704103201 :: real) - 1704103200 < of_int (COOLDOWN cfg0)
   \<and> apply_command cfg0 (fst (apply_command cfg0 Map.empty (member 7) 1704103200 env0))
        (member 7) 1704103201 env0
      = (fst (apply_command cfg0 Map.empty (member 7) 1704103200 env0),
         [Reply CooldownActive True])
   \<and> (100 :: real) < of_int (COOLDOWN cfg0)
   \<and> apply_command cfg0 Map.empty (member 7) 100 env0 = (Map.empty, [Reply CooldownActive True])
   \<and> \<not> (1704103200 :: real) - 0 < of_int (COOLDOWN cfg0)
   \<and> create_dm_ok env0 \<and> welcome_sent env0 = Some 50 \<and> question_sent env0 = Some 51
   \<and> QUESTIONS cfg0 \<noteq> []
   \<and> snd (apply_command cfg0 Map.empty (member 7) 1704103200 env0) = [Reply CheckDMs True]
   \<and> \<not> is_bot (member 7) \<and> (0 :: nat) + 1 = length (QUESTIONS cfg0)
   \<and> summary_sent menv0 = Some 53
   \<and> snd (fst (on_message cfg0
        (db_of (row0\<lparr>score := Some 8, score_scale := Some 10\<rparr>),
         fst (apply_command cfg0 Map.empty (member 7) 1704103200 env0))
        (member 7) True ''To help.'' menv0)) (py_str 7) = None
   \<and> fetch_app (db_of (row0\<lparr>score := Some 8, score_scale := Some 10\<rparr>)) ''app_1''
        = Inr (Some (with_ids (row0\<lparr>score := Some 8, score_scale := Some 10\<rparr>) [50]))
   \<and> snd (fst (DecisionModal_on_submit
        (db_of (row0\<lparr>score := Some 8, score_scale := Some 10\<rparr>),
         fst (apply_command cfg0 Map.empty (member 7) 1704103200 env0))
        ''app_1'' ''Approved'' (member 1) ''fine'' None)) (py_str 7) = None
   \<and> db_of (row0\<lparr>score := Some 8, score_scale := Some 10\<rparr>) ''app_20240101100000_012345''
        = None
   \<and> (\<exists>r. fst (fst (on_message cfg0
          (db_of (row0\<lparr>score := Some 8, score_scale := Some 10\<rparr>),
           fst (apply_command cfg0 Map.empty (member 7) 1704103200 env0))
          (member 7) True ''To help.'' menv0)) ''app_20240101100000_012345'' = Some r
        \<and> user_id r = Some (py_str 7))
   \<and> length ''20240101100000'' = length ''20240101100001''
   \<and> new_app_id ''20240101100000'' ''0123456789abcdef'' \<noteq>
       new_app_id ''20240101100001'' ''0123456789abcdef''"
proof -
  define s1 where "s1 = \<lparr>st_app_id = ''app_20240101100000_012345'',
         st_started = ''2024-01-01T10:00:00'', st_q_index = 0, st_transcript = [],
         st_bot_message_ids = [50, 51], st_last = (1704103200 :: real)\<rparr>"
  define og1 where "og1 = fst (apply_command cfg0 Map.empty (member 7) 1704103200 env0)"
  define db1 where "db1 = db_of (row0\<lparr>score := Some 8, score_scale := Some 10\<rparr>)"
  define a1 where "a1 = with_ids (row0\<lparr>score := Some 8, score_scale := Some 10\<rparr>) [50]"
  have og: "og1 (py_str 7) = Some s1"
    by (simp add: og1_def s1_def apply_example)
  have f: "fetch_app db1 ''app_1'' = Inr (Some a1)"
    by (simp add: db1_def a1_def fetch_db_of)
  have n: "db1 ''app_20240101100000_012345'' = None"
    by (simp add: db1_def db_of_def)
  have c: "COOLDOWN cfg0 = 300" "QUESTIONS cfg0 = [''Why do you apply?'']"
    by (simp_all add: cfg0_def)
  have e: "create_dm_ok env0" "welcome_sent env0 = Some 50" "question_sent env0 = Some 51"
    "summary_sent menv0 = Some 53"
    by (simp_all add: env0_def menv0_def)
  have a: "\<not> claimed_by_other a1 (member 1)" "score a1 \<noteq> None" "user_id a1 = Some (py_str 7)"
    by (simp_all add: a1_def claimed_by_other_def)
  note held = cooldown_gate [where og = og1 and u = "member 7" and s = s1
      and now = 1704103201 and cfg = cfg0 and env = env0 and db = db1 and menv = menv0
      and sid = 53 and content = "''To help.''" and i = "''app_1''" and a = a1
      and v = "member 1" and dec = "''Approved''" and rv = "''fine''" and rs = None
      and m = 50 and qm = 51
      and stamp = "''20240101100000''" and stamp' = "''20240101100001''"
      and h = "''0123456789abcdef''" and h' = "''0123456789abcdef''"]
  note early = cooldown_gate [where og = Map.empty and u = "member 7" and s = s1
      and now = 100 and cfg = cfg0 and env = env0 and db = db1 and menv = menv0
      and sid = 53 and content = "''To help.''" and i = "''app_1''" and a = a1
      and v = "member 1" and dec = "''Approved''" and rv = "''fine''" and rs = None
      and m = 50 and qm = 51
      and stamp = "''20240101100000''" and stamp' = "''20240101100001''"
      and h = "''0123456789abcdef''" and h' = "''0123456789abcdef''"]
  note fresh = cooldown_gate [where og = Map.empty and u = "member 7" and s = s1
      and now = 1704103200 and cfg = cfg0 and env = env0 and db = db1 and menv = menv0
      and sid = 53 and content = "''To help.''" and i = "''app_1''" and a = a1
      and v = "member 1" and dec = "''Approved''" and rv = "''fine''" and rs = None
      and m = 50 and qm = 51
      and stamp = "''20240101100000''" and stamp' = "''20240101100001''"
      and h = "''0123456789abcdef''" and h' = "''0123456789abcdef''"]
  have h1: "apply_command cfg0 og1 (member 7) 1704103201 env0 = (og1, [Reply CooldownActive True])"
    using held og c by (simp add: s1_def)
  have h2: "apply_command cfg0 Map.empty (member 7) 100 env0
      = (Map.empty, [Reply CooldownActive True])"
    using early c by simp
  have h3: "snd (apply_command cfg0 Map.empty (member 7) 1704103200 env0) = [Reply CheckDMs True]"
    using fresh c e by simp
  have h4: "snd (fst (on_message cfg0 (db1, og1) (member 7) True ''To help.'' menv0)) (py_str 7)
      = None"
    using held og c e by (simp add: s1_def)
  have h5: "snd (fst (DecisionModal_on_submit (db1, og1) ''app_1'' ''Approved'' (member 1)
      ''fine'' None)) (py_str 7) = None"
    using held f a by simp
  have h6: "\<exists>r. fst (fst (on_message cfg0 (db1, og1) (member 7) True ''To help.'' menv0))
        ''app_20240101100000_012345'' = Some r \<and> user_id r = Some (py_str 7)"
    using held og c n by (auto simp: s1_def)
  have h7: "new_app_id ''20240101100000'' ''0123456789abcdef'' \<noteq>
       new_app_id ''20240101100001'' ''0123456789abcdef''"
    using held by simp
  show ?thesis
    using og h1 h2 h3 h4 h5 h6 h7 f n c e
    by (simp add: og1_def [symmetric] db1_def [symmetric] a1_def [symmetric] s1_def)
qed

theorem cooldown_gate_counterexample:
  "snd (apply_command cfg0 Map.empty (member 7) 1704103200 env0) = [Reply CheckDMs True]
   \<and> (1704103201 :: real) - 1704103200 < of_int (COOLDOWN cfg0)
   \<and> snd (apply_command cfg0
        (snd (run cfg0 (Map.empty, Map.empty)
           [Apply (member 7) 1704103200 env0, Message (member 7) True ''To help.'' menv0]))
        (member 7) 1704103201 (env0\<lparr>clock_stamp := ''20240101100001''\<rparr>))
      = [Reply CheckDMs True]
   \<and> fst (apply_command cfg0
        (snd (run cfg0 (Map.empty, Map.empty)
           [Apply (member 7) 1704103200 env0, Message (member 7) True ''To help.'' menv0]))
        (member 7) 1704103201 (env0\<lparr>clock_stamp := ''20240101100001''\<rparr>)) (py_str 7)
      = Some \<lparr>st_app_id = ''app_20240101100001_012345'', st_started = ''2024-01-01T10:00:00'',
         st_q_index = 0, st_transcript = [], st_bot_message_ids = [50, 51],
         st_last = 1704103201\<rparr>"
  unfolding answered_example
  by (simp add: apply_example) (simp add: apply_command_def cfg0_def env0_def new_app_id_def Let_def)

end
